theory Spec2Isabelle
  imports Main
begin

section \<open>The host, the shell state and the shell's control flow\<close>

text \<open>
  The repository is one TypeScript file, \<^verbatim>\<open>src/index.ts\<close>: a small HTTP front-end and
  two bash scripts that it serves as text (\<^verbatim>\<open>installScript\<close>, \<^verbatim>\<open>aptSetupScript\<close>).
  The scripts are embedded statement by statement. Everything a script reads from
  the machine it runs on is a field of \<open>host\<close>; everything it changes is a field of
  \<open>sys\<close>: its shell variables, the files it writes and the trace of what it printed,
  fetched and executed.
\<close>

record regfile =
  content :: string
  executable :: bool

datatype event =
    Info string          \<comment> \<open>\<^verbatim>\<open>info\<close>: a blue line on standard output\<close>
  | Okay string          \<comment> \<open>\<^verbatim>\<open>ok\<close>: a green line on standard output\<close>
  | Warn string          \<comment> \<open>\<^verbatim>\<open>warn\<close>: a yellow line on standard error\<close>
  | Error string         \<comment> \<open>\<^verbatim>\<open>fail\<close>: a red line \<^verbatim>\<open>Error: ...\<close> on standard error\<close>
  | Echo string          \<comment> \<open>\<^verbatim>\<open>echo\<close>\<close>
  | Curl string          \<comment> \<open>a network request: \<^verbatim>\<open>curl -fsSL URL\<close>\<close>
  | Exec "string list"   \<comment> \<open>any other external command, with its arguments\<close>

record sys =
  VERSION :: string
  SKIP_VERIFY :: string
  ARCH :: string
  fs :: "string \<rightharpoonup> regfile"
  trace :: "event list"

record host =
  args :: "string list"              \<comment> \<open>the positional parameters\<close>
  HOME :: string
  PATH :: string
  has_cmd :: "string \<Rightarrow> bool"        \<comment> \<open>\<^verbatim>\<open>command -v NAME\<close> succeeds\<close>
  uname_m :: string                  \<comment> \<open>the output of \<^verbatim>\<open>uname -m\<close>\<close>
  curl :: "string \<Rightarrow> nat \<times> string"   \<comment> \<open>\<^verbatim>\<open>curl -fsSL URL\<close>: exit status and the bytes received\<close>
  run :: "string list \<Rightarrow> nat"        \<comment> \<open>the exit status of an external command\<close>
  grep_bre :: "string \<Rightarrow> string \<Rightarrow> bool"
    \<comment> \<open>whether a basic regular expression outside the fragment modelled below matches a whole line\<close>
  tag_pipeline :: "string \<Rightarrow> nat \<times> string"
    \<comment> \<open>status and output of the version pipeline on a response outside the fragment modelled below\<close>
  early_quit_rc :: nat
    \<comment> \<open>status of the search-path pipeline when \<^verbatim>\<open>grep -q\<close> leaves while a long listing is still being written\<close>
  uid :: nat                         \<comment> \<open>the output of \<^verbatim>\<open>id -u\<close>\<close>
  dpkg_arch :: string                \<comment> \<open>the output of \<^verbatim>\<open>dpkg --print-architecture\<close>\<close>
  dearmor :: "string \<Rightarrow> string"       \<comment> \<open>the binary form \<^verbatim>\<open>gpg --dearmor\<close> writes for its input\<close>
  gpg_dearmor_rc :: "string \<Rightarrow> bool \<Rightarrow> nat"
    \<comment> \<open>exit status of \<^verbatim>\<open>gpg --dearmor -o FILE\<close>, given its input and whether FILE exists already\<close>

text \<open>
  Both scripts start with \<^verbatim>\<open>set -euo pipefail\<close>. A command is a function to an exit
  status and a new state. Where the shell checks the status (a simple command that is not
  a condition and not the left part of an and-or list), a status other than 0 ends the
  process with that status: \<open>errexit\<close>. A step either hands the state on or ends the
  process.
\<close>

type_synonym cmd = "sys \<Rightarrow> nat \<times> sys"

datatype outcome = Next sys | Exit nat sys

type_synonym step = "sys \<Rightarrow> outcome"

fun state_of :: "outcome \<Rightarrow> sys" where
  "state_of (Next s) = s"
| "state_of (Exit n s) = s"

fun exit_code :: "outcome \<Rightarrow> nat option" where
  "exit_code (Next s) = None"
| "exit_code (Exit n s) = Some n"

fun seq :: "step list \<Rightarrow> step" where
  "seq [] s = Next s"
| "seq (c # cs) s = (case c s of Next s' \<Rightarrow> seq cs s' | Exit n s' \<Rightarrow> Exit n s')"

definition errexit :: "cmd \<Rightarrow> step" where
  "errexit c s = (case c s of (rc, s') \<Rightarrow> if rc = 0 then Next s' else Exit rc s')"

definition if_cmd :: "cmd \<Rightarrow> step \<Rightarrow> step \<Rightarrow> step" where
  \<comment> \<open>\<^verbatim>\<open>if C; then A; else B; fi\<close>\<close>
  "if_cmd c a b s = (case c s of (rc, s') \<Rightarrow> if rc = 0 then a s' else b s')"

definition or_true :: "cmd \<Rightarrow> step" where
  \<comment> \<open>\<^verbatim>\<open>C || true\<close>\<close>
  "or_true c s = Next (snd (c s))"

definition skip :: step where
  "skip s = Next s"

definition pipefail :: "nat \<Rightarrow> nat \<Rightarrow> nat" where
  \<comment> \<open>the status of \<^verbatim>\<open>A | B\<close> under \<^verbatim>\<open>pipefail\<close>: that of the rightmost command that failed\<close>
  "pipefail a b = (if b \<noteq> 0 then b else a)"

subsection \<open>Helpers of the scripts\<close>

definition emit :: "event \<Rightarrow> sys \<Rightarrow> sys" where
  "emit e s = s\<lparr>trace := trace s @ [e]\<rparr>"

definition info :: "string \<Rightarrow> step" where
  "info m s = Next (emit (Info m) s)"

definition ok :: "string \<Rightarrow> step" where
  "ok m s = Next (emit (Okay m) s)"

definition warn :: "string \<Rightarrow> step" where
  "warn m s = Next (emit (Warn m) s)"

definition echo :: "string \<Rightarrow> step" where
  "echo m s = Next (emit (Echo m) s)"

definition fail :: "string \<Rightarrow> step" where
  \<comment> \<open>\<^verbatim>\<open>fail() { printf ... >&2; exit 1; }\<close>\<close>
  "fail m s = Exit 1 (emit (Error m) s)"

definition need :: "host \<Rightarrow> string \<Rightarrow> step" where
  "need h c = (if has_cmd h c then skip
               else fail ([CHR 0x27] @ c @ [CHR 0x27] @ '' is required but not installed.''))"

subsection \<open>External commands\<close>

text \<open>
  \<^verbatim>\<open>curl -fsSL -o FILE URL\<close> stores what it received under FILE when it succeeds, and
  leaves the files alone when it fails. A file that is written keeps its mode if it was
  there before and is not executable otherwise. Directories are not modelled:
  \<^verbatim>\<open>mkdir -p\<close>, \<^verbatim>\<open>rm -f\<close> and a redirection to a file, on the script's own paths, are
  taken to succeed. The probes (\<^verbatim>\<open>command -v\<close>, \<^verbatim>\<open>uname\<close>, \<^verbatim>\<open>id\<close>, \<^verbatim>\<open>dpkg\<close>) and the
  text filters leave no event in the trace.
\<close>

definition write_file :: "string \<Rightarrow> string \<Rightarrow> sys \<Rightarrow> sys" where
  "write_file p c s =
     s\<lparr>fs := (fs s)(p \<mapsto> \<lparr>content = c,
                            executable = (case fs s p of None \<Rightarrow> False | Some f \<Rightarrow> executable f)\<rparr>)\<rparr>"

definition curl_o :: "host \<Rightarrow> string \<Rightarrow> string \<Rightarrow> cmd" where
  "curl_o h f url s =
     (case curl h url of (rc, body) \<Rightarrow>
        (rc, if rc = 0 then write_file f body (emit (Curl url) s) else emit (Curl url) s))"

definition exec :: "host \<Rightarrow> string list \<Rightarrow> cmd" where
  "exec h argv s = (run h argv, emit (Exec argv) s)"

definition curl_pipe :: "host \<Rightarrow> string \<Rightarrow> string list \<Rightarrow> cmd" where
  \<comment> \<open>\<^verbatim>\<open>curl -fsSL URL | COMMAND\<close>\<close>
  "curl_pipe h url argv s =
     (pipefail (fst (curl h url)) (run h argv), emit (Exec argv) (emit (Curl url) s))"

definition rm_f :: "string \<Rightarrow> step" where
  "rm_f p s = Next (s\<lparr>fs := (fs s)(p := None)\<rparr>)"

definition chmod_x :: "string \<Rightarrow> step" where
  \<comment> \<open>\<^verbatim>\<open>chmod +x\<close> fails on a file that is not there\<close>
  "chmod_x p s =
     (case fs s p of
        None \<Rightarrow> Exit 1 s
      | Some f \<Rightarrow> Next (s\<lparr>fs := (fs s)(p \<mapsto> f\<lparr>executable := True\<rparr>)\<rparr>))"

definition is_file :: "sys \<Rightarrow> string \<Rightarrow> bool" where
  \<comment> \<open>\<^verbatim>\<open>[[ -f PATH ]]\<close>\<close>
  "is_file s p = (fs s p \<noteq> None)"

definition basename :: "string \<Rightarrow> string" where
  \<comment> \<open>the part after the last slash; the script calls it on paths that end in a file name\<close>
  "basename p = rev (takeWhile (\<lambda>c. c \<noteq> CHR ''/'') (rev p))"

section \<open>The install script\<close>

definition GITHUB_REPO :: string where
  "GITHUB_REPO = ''mcpmux/mcp-mux''"

definition emdash :: string where
  \<comment> \<open>the UTF-8 bytes of the dash in the script's messages\<close>
  "emdash = [CHR 0xE2, CHR 0x80, CHR 0x94]"

definition release_url :: "sys \<Rightarrow> string \<Rightarrow> string" where
  \<comment> \<open>\<^verbatim>\<open>https://github.com/${GITHUB_REPO}/releases/download/v${VERSION}/NAME\<close>\<close>
  "release_url s name =
     ''https://github.com/'' @ GITHUB_REPO @ ''/releases/download/v'' @ VERSION s @ ''/'' @ name"

subsection \<open>\<^verbatim>\<open>verify_signature\<close>\<close>

definition msg_skip_flag :: string where
  "msg_skip_flag = ''Skipping signature verification (--skip-verify)''"

definition msg_no_gpg :: string where
  "msg_no_gpg = ''gpg not found '' @ emdash @ '' skipping signature verification''"

definition msg_no_sig :: string where
  "msg_no_sig = ''No signature file found '' @ emdash @ '' skipping verification''"

definition msg_verified :: string where
  "msg_verified = ''Signature verified''"

definition msg_verify_failed :: string where
  "msg_verify_failed =
     ''Signature verification failed '' @ emdash @ '' package may not be signed yet''"

definition key_url :: string where
  "key_url = ''https://apt.mcpmux.com/key.gpg''"

definition verify_signature :: "host \<Rightarrow> string \<Rightarrow> step" where
  "verify_signature h f s =
     (if SKIP_VERIFY s = ''true'' then warn msg_skip_flag s
      else if \<not> has_cmd h ''gpg'' then
        seq [warn msg_no_gpg,
             warn ''Install gnupg and re-run, or use --skip-verify to suppress this warning''] s
      else
        let sig_url = release_url s (basename f @ ''.sig'');
            sig_file = f @ ''.sig''
        in if_cmd (curl_o h sig_file sig_url)
             (seq [if_cmd (exec h [''gpg'', ''--list-keys'', ''hello@mcpmux.com''])
                     skip
                     (or_true (curl_pipe h key_url [''gpg'', ''--import'', ''--quiet''])),
                   if_cmd (exec h [''gpg'', ''--verify'', sig_file, f])
                     (ok msg_verified)
                     (warn msg_verify_failed),
                   rm_f sig_file])
             (warn msg_no_sig) s)"

text \<open>
  The specification names the five ways a verification can end. The script reports each
  with a line of its own; \<open>outcome_of_event\<close> reads the name off the line.
\<close>

datatype VerificationOutcome =
  Verified | SkippedByFlag | SkippedNoTool | SkippedNoSignature | FailedSoft

fun outcome_of_event :: "event \<Rightarrow> VerificationOutcome option" where
  "outcome_of_event (Okay m) = (if m = msg_verified then Some Verified else None)"
| "outcome_of_event (Warn m) =
     (if m = msg_skip_flag then Some SkippedByFlag
      else if m = msg_no_gpg then Some SkippedNoTool
      else if m = msg_no_sig then Some SkippedNoSignature
      else if m = msg_verify_failed then Some FailedSoft
      else None)"
| "outcome_of_event e = None"

fun reported_outcomes :: "event list \<Rightarrow> VerificationOutcome list" where
  "reported_outcomes [] = []"
| "reported_outcomes (e # es) =
     (case outcome_of_event e of
        None \<Rightarrow> reported_outcomes es
      | Some v \<Rightarrow> v # reported_outcomes es)"

fun net_calls :: "event list \<Rightarrow> string list" where
  \<comment> \<open>the addresses requested, in order\<close>
  "net_calls [] = []"
| "net_calls (Curl u # es) = u # net_calls es"
| "net_calls (e # es) = net_calls es"

subsection \<open>The strategies\<close>

definition or_else :: "cmd \<Rightarrow> step \<Rightarrow> step" where
  \<comment> \<open>\<^verbatim>\<open>C || B\<close>\<close>
  "or_else c b s = (case c s of (rc, s') \<Rightarrow> if rc = 0 then Next s' else b s')"

definition and_list :: "cmd \<Rightarrow> cmd \<Rightarrow> step" where
  \<comment> \<open>\<^verbatim>\<open>A && B\<close>: the shell does not check the status of A, only that of B\<close>
  "and_list a b s = (case a s of (ra, s') \<Rightarrow> if ra = 0 then errexit b s' else Next s')"

definition mkdir_p :: "string \<Rightarrow> step" where
  "mkdir_p d s = Next (emit (Exec [''mkdir'', ''-p'', d]) s)"

definition deb_url :: "sys \<Rightarrow> string" where
  "deb_url s = release_url s (''mcpmux_'' @ VERSION s @ ''_'' @ ARCH s @ ''.deb'')"

definition install_deb :: "host \<Rightarrow> step" where
  "install_deb h s =
     (let tmp = ''/tmp/mcpmux.deb''
      in seq [info ''Downloading .deb package...'',
              or_else (curl_o h tmp (deb_url s)) (fail (''Download failed: '' @ deb_url s)),
              verify_signature h tmp,
              info ''Installing...'',
              errexit (exec h [''sudo'', ''apt-get'', ''install'', ''-y'', tmp]),
              rm_f tmp,
              echo [],
              info ''Tip: For automatic updates via apt, add the McpMux repository:'',
              echo ''  curl -fsSL https://install.mcpmux.com/apt | sudo bash''] s)"

definition rpm_url :: "sys \<Rightarrow> string" where
  "rpm_url s = release_url s (''mcpmux-'' @ VERSION s @ ''-1.'' @ ARCH s @ ''.rpm'')"

definition install_rpm :: "host \<Rightarrow> step" where
  "install_rpm h s =
     (let tmp = ''/tmp/mcpmux.rpm''
      in seq [info ''Downloading .rpm package...'',
              or_else (curl_o h tmp (rpm_url s)) (fail (''Download failed: '' @ rpm_url s)),
              verify_signature h tmp,
              info ''Installing...'',
              errexit (exec h [''sudo'', ''dnf'', ''install'', ''-y'', tmp]),
              rm_f tmp] s)"

definition aur_instructions :: "string list" where
  \<open>aur_instructions =
     [[],
      ''Option 1: Install an AUR helper first:'',
      ''  sudo pacman -S --needed git base-devel'',
      ''  git clone https://aur.archlinux.org/yay-bin.git && cd yay-bin && makepkg -si'',
      ''  yay -S mcpmux-bin'',
      [],
      ''Option 2: Download the AppImage:'',
      ''  https://github.com/'' @ GITHUB_REPO @ ''/releases/latest'']\<close>

definition install_pacman :: "host \<Rightarrow> step" where
  "install_pacman h s =
     (if has_cmd h ''yay'' then
        seq [info ''Installing from AUR via yay...'',
             errexit (exec h [''yay'', ''-S'', ''mcpmux-bin''])] s
      else if has_cmd h ''paru'' then
        seq [info ''Installing from AUR via paru...'',
             errexit (exec h [''paru'', ''-S'', ''mcpmux-bin''])] s
      else
        seq ([warn ''No AUR helper found (yay or paru).''] @ map echo aur_instructions
             @ [\<lambda>s'. Exit 1 s']) s)"

text \<open>
  The search path is checked with \<^verbatim>\<open>echo "$PATH" | tr ':' '\n' | grep -qx "$install_dir"\<close>.
  \<^verbatim>\<open>echo\<close> prints its argument and a newline, unless the argument is one of its options (a
  dash followed by letters from \<^verbatim>\<open>n\<close>, \<^verbatim>\<open>e\<close>, \<^verbatim>\<open>E\<close>): then it prints nothing, or only the
  newline when \<^verbatim>\<open>n\<close> is not among the letters. \<^verbatim>\<open>grep\<close> reads the directory as a basic
  regular expression that has to match a whole line. In a pattern that does not start
  with a dash and has no backslash, bracket, star, caret or dollar, every character stands
  for itself, except the dot, which stands for any character; on lines of ASCII
  characters that is \<open>dot_match\<close>. For any other pattern or line the host's \<open>grep_bre\<close>
  decides. With \<^verbatim>\<open>-q\<close>, \<^verbatim>\<open>grep\<close> leaves at the first line that matches. A listing of
  fewer than 4096 bytes has been written to it in one piece by then, and the pipeline
  has the status of \<^verbatim>\<open>grep\<close>. While a longer listing is still being written, \<^verbatim>\<open>tr\<close> can
  be ended by the closed pipe, and under \<^verbatim>\<open>pipefail\<close> the pipeline then has status 141
  although a line matched: there the host's \<open>early_quit_rc\<close> is the status.
\<close>

definition echo_option :: "string \<Rightarrow> bool" where
  "echo_option a =
     (case a of
        [] \<Rightarrow> False
      | c # r \<Rightarrow> c = CHR ''-'' \<and> r \<noteq> [] \<and> list_all (\<lambda>x. x \<in> {CHR ''n'', CHR ''e'', CHR ''E''}) r)"

definition echo_out :: "string \<Rightarrow> string" where
  "echo_out a =
     (if echo_option a then (if CHR ''n'' \<in> set a then [] else [CHR 10]) else a @ [CHR 10])"

fun lines_of :: "string \<Rightarrow> string list" where
  "lines_of [] = []"
| "lines_of (c # cs) =
     (if c = CHR 10 then [] # lines_of cs
      else case lines_of cs of [] \<Rightarrow> [[c]] | l # ls \<Rightarrow> (c # l) # ls)"

definition tr_colon_newline :: "string \<Rightarrow> string" where
  "tr_colon_newline = map (\<lambda>c. if c = CHR '':'' then CHR 10 else c)"

fun dot_match :: "string \<Rightarrow> string \<Rightarrow> bool" where
  "dot_match [] [] = True"
| "dot_match (p # ps) (c # cs) = ((p = CHR ''.'' \<or> p = c) \<and> dot_match ps cs)"
| "dot_match ps cs = False"

definition bre_plain :: "string \<Rightarrow> bool" where
  "bre_plain p =
     (take 1 p \<noteq> ''-''
      \<and> list_all (\<lambda>c. c \<notin> {CHR 0x5C, CHR ''['', CHR ''*'', CHR ''^'', CHR ''$''}) p)"

definition ascii :: "string \<Rightarrow> bool" where
  "ascii cs = list_all (\<lambda>c. (of_char c :: nat) < 128) cs"

definition grep_x :: "host \<Rightarrow> string \<Rightarrow> string \<Rightarrow> bool" where
  "grep_x h pat l =
     (if bre_plain pat \<and> ascii pat \<and> ascii l then dot_match pat l else grep_bre h pat l)"

definition path_lines :: "host \<Rightarrow> string list" where
  "path_lines h = lines_of (tr_colon_newline (echo_out (PATH h)))"

definition grep_qx_path :: "host \<Rightarrow> string \<Rightarrow> cmd" where
  "grep_qx_path h pat s =
     (if list_ex (grep_x h pat) (path_lines h)
      then (if length (PATH h) < 4096 then 0 else early_quit_rc h)
      else 1, s)"

definition msg_path_warning :: string where
  "msg_path_warning = ''~/.local/bin is not in your PATH. Add it with:''"

definition appimage_url :: "sys \<Rightarrow> string" where
  "appimage_url s = release_url s (''McpMux_'' @ VERSION s @ ''_'' @ ARCH s @ ''.AppImage'')"

definition install_dir :: "host \<Rightarrow> string" where
  "install_dir h = HOME h @ ''/.local/bin''"

definition install_path :: "host \<Rightarrow> string" where
  "install_path h = install_dir h @ ''/McpMux.AppImage''"

definition msg_appimage :: string where
  "msg_appimage = ''No supported package manager found '' @ emdash @ '' installing AppImage...''"

definition install_appimage :: "host \<Rightarrow> step" where
  \<open>install_appimage h s =
     seq [info msg_appimage,
          mkdir_p (install_dir h),
          info ''Downloading AppImage...'',
          or_else (curl_o h (install_path h) (appimage_url s))
            (fail (''Download failed: '' @ appimage_url s)),
          verify_signature h (install_path h),
          chmod_x (install_path h),
          ok (''Installed to '' @ install_path h),
          if_cmd (grep_qx_path h (install_dir h))
            skip
            (seq [echo [],
                  warn msg_path_warning,
                  echo ''  echo 'export PATH="$HOME/.local/bin:$PATH"' >> ~/.bashrc'',
                  echo ''  source ~/.bashrc''])] s\<close>

subsection \<open>The main part\<close>

definition usage :: string where
  "usage = ''Usage: install.sh [--version VERSION] [--skip-verify]''"

text \<open>
  The argument loop. \<^verbatim>\<open>--version\<close> as the last argument reads the unset \<^verbatim>\<open>$2\<close>, which
  under \<^verbatim>\<open>set -u\<close> ends the process with status 1.
\<close>

fun parse_args :: "string list \<Rightarrow> step" where
  "parse_args [] s = Next s"
| "parse_args (a # rest) s =
     (if a = ''--version'' \<or> a = ''-v'' then
        (case rest of
           [] \<Rightarrow> Exit 1 s
         | v # rest' \<Rightarrow> parse_args rest' (s\<lparr>VERSION := v\<rparr>))
      else if a = ''--skip-verify'' then parse_args rest (s\<lparr>SKIP_VERIFY := ''true''\<rparr>)
      else if a = ''--help'' \<or> a = ''-h'' then Exit 0 (emit (Echo usage) s)
      else fail (''Unknown option: '' @ a) s)"

definition detect_arch :: "host \<Rightarrow> step" where
  "detect_arch h s =
     (let s1 = s\<lparr>ARCH := uname_m h\<rparr>
      in if ARCH s1 = ''x86_64'' then Next (s1\<lparr>ARCH := ''amd64''\<rparr>)
         else if ARCH s1 = ''aarch64'' then Next (s1\<lparr>ARCH := ''arm64''\<rparr>)
         else fail (''Unsupported architecture: '' @ ARCH s1) s1)"

text \<open>
  The latest version is read with
  \<^verbatim>\<open>curl -fsSL URL | grep '"tag_name"' | head -1 | sed 's/.*"v\([^"]*\)".*/\1/'\<close>.
  \<^verbatim>\<open>grep\<close> keeps the lines that contain the text \<^verbatim>\<open>"tag_name"\<close> and fails with status 1
  when there is none. The \<^verbatim>\<open>sed\<close> expression has to match the whole line; its first
  \<^verbatim>\<open>.*\<close> is greedy, so of all the places where a quote and a \<^verbatim>\<open>v\<close> are followed, further
  on, by another quote, the last one is taken, and the line is replaced by the text
  between that \<^verbatim>\<open>v\<close> and the next quote. A line with no such place is left as it is.

  That is what the pipeline does on a response of ASCII characters with at most one
  matching line. On a response with a NUL byte or a byte outside ASCII \<^verbatim>\<open>grep\<close> may take
  its input for binary data and print no line; with a second matching line \<^verbatim>\<open>head -1\<close>
  may have closed the pipe before \<^verbatim>\<open>grep\<close> has written it, and the pipeline then fails
  with status 141. For such responses the host's \<open>tag_pipeline\<close> gives status and output.
\<close>

fun starts_with :: "string \<Rightarrow> string \<Rightarrow> bool" where
  "starts_with cs [] = True"
| "starts_with [] (p # ps) = False"
| "starts_with (c # cs) (p # ps) = (c = p \<and> starts_with cs ps)"

fun str_includes :: "string \<Rightarrow> string \<Rightarrow> bool" where
  "str_includes [] p = (p = [])"
| "str_includes (c # cs) p = (starts_with (c # cs) p \<or> str_includes cs p)"

fun sed_match :: "string \<Rightarrow> string option" where
  "sed_match [] = None"
| "sed_match (c # cs) =
     (case sed_match cs of
        Some r \<Rightarrow> Some r
      | None \<Rightarrow>
          (case cs of
             [] \<Rightarrow> None
           | d # ds \<Rightarrow>
               if c = CHR 0x22 \<and> d = CHR ''v'' \<and> CHR 0x22 \<in> set ds
               then Some (takeWhile (\<lambda>x. x \<noteq> CHR 0x22) ds) else None))"

definition sed_strip_v :: "string \<Rightarrow> string" where
  "sed_strip_v l = (case sed_match l of None \<Rightarrow> l | Some r \<Rightarrow> r)"

definition latest_url :: string where
  "latest_url = ''https://api.github.com/repos/'' @ GITHUB_REPO @ ''/releases/latest''"

definition has_tag_name :: "string \<Rightarrow> bool" where
  \<open>has_tag_name l = str_includes l ''"tag_name"''\<close>

definition text_body :: "string \<Rightarrow> bool" where
  "text_body b = list_all (\<lambda>c. 0 < (of_char c :: nat) \<and> (of_char c :: nat) < 128) b"

definition latest_tag :: "host \<Rightarrow> nat \<times> string" where
  \<comment> \<open>status and output of the pipeline\<close>
  \<open>latest_tag h =
     (case curl h latest_url of (rc, body) \<Rightarrow>
        if text_body body then
          (case filter has_tag_name (lines_of body) of
             [] \<Rightarrow> (pipefail rc 1, [])
           | [l] \<Rightarrow> (pipefail rc 0, sed_strip_v l)
           | l # l' # ls \<Rightarrow> tag_pipeline h body)
        else tag_pipeline h body)\<close>

definition resolve_version :: "host \<Rightarrow> step" where
  "resolve_version h s =
     (if VERSION s = [] then
        seq [info ''Fetching latest release...'',
             (\<lambda>s1. case latest_tag h of (rc, out) \<Rightarrow>
                      if rc = 0 then Next ((emit (Curl latest_url) s1)\<lparr>VERSION := out\<rparr>)
                      else Exit rc (emit (Curl latest_url) s1)),
             (\<lambda>s2. if VERSION s2 \<noteq> [] then Next s2
                    else fail ''Could not determine latest version'' s2)] s
      else Next s)"

definition sources_list_path :: string where
  "sources_list_path = ''/etc/apt/sources.list.d/mcpmux.list''"

definition msg_managed :: string where
  "msg_managed = ''McpMux APT repository detected '' @ emdash @ '' using apt...''"

definition managed_repo_install :: "host \<Rightarrow> step" where
  \<comment> \<open>the first branch of the main conditional, which the script writes in line\<close>
  "managed_repo_install h =
     seq [info msg_managed,
          and_list (exec h [''sudo'', ''apt-get'', ''update''])
                   (exec h [''sudo'', ''apt-get'', ''install'', ''-y'', ''mcpmux''])]"

definition dispatch :: "host \<Rightarrow> step" where
  "dispatch h s =
     (if is_file s sources_list_path then managed_repo_install h s
      else if has_cmd h ''apt-get'' then install_deb h s
      else if has_cmd h ''dnf'' then install_rpm h s
      else if has_cmd h ''pacman'' then install_pacman h s
      else install_appimage h s)"

definition install_main :: "host \<Rightarrow> step" where
  \<open>install_main h =
     seq [parse_args (args h),
          need h ''curl'',
          detect_arch h,
          (\<lambda>s. info (''Detected architecture: '' @ ARCH s) s),
          resolve_version h,
          (\<lambda>s. info (''Installing McpMux v'' @ VERSION s) s),
          dispatch h,
          echo [],
          ok ''McpMux installed successfully!'',
          echo ''Run 'mcpmux' to start.'']\<close>

definition initial :: "(string \<rightharpoonup> regfile) \<Rightarrow> sys" where
  \<comment> \<open>the state a script starts in, on a machine with the given files\<close>
  "initial f = \<lparr>VERSION = [], SKIP_VERIFY = ''false'', ARCH = [], fs = f, trace = []\<rparr>"

section \<open>The repository set-up script\<close>





section \<open>The front-end\<close>

text \<open>
  The three texts the front-end serves, line by line as the source has them (with the
  escapes of the template literals resolved). Bytes outside ASCII and the characters
  that the notation for string literals cannot hold are written by name.
\<close>

definition bs :: string where
  \<comment> \<open>a backslash\<close>
  "bs = [CHR 0x5C]"

definition sq :: string where
  \<comment> \<open>a single quote\<close>
  "sq = [CHR 0x27]"

definition hrule :: "nat \<Rightarrow> string" where
  \<comment> \<open>a run of box-drawing dashes (U+2500) in UTF-8\<close>
  "hrule n = concat (replicate n [CHR 0xE2, CHR 0x94, CHR 0x80])"

definition unlines :: "string list \<Rightarrow> string" where
  "unlines ls = concat (map (\<lambda>l. l @ [CHR 10]) ls)"

fun join_lines :: "string list \<Rightarrow> string" where
  "join_lines [] = []"
| "join_lines [l] = l"
| "join_lines (l # ls) = l @ [CHR 10] @ join_lines ls"

definition installScript :: string where
  \<open>installScript =
     unlines
     [''#!/usr/bin/env bash'',
      ''# McpMux Installer'',
      ''# Usage: curl -fsSL https://install.mcpmux.com | bash'',
      ''#    or: curl -fsSL https://install.mcpmux.com | bash -s -- --version 0.0.12'',
      ''set -euo pipefail'',
      [],
      ''GITHUB_REPO="mcpmux/mcp-mux"'',
      ''VERSION=""'',
      ''SKIP_VERIFY=false'',
      [],
      ''# '' @ hrule 2 @ '' Helpers '' @ hrule 58,
      [],
      ''info()  { printf '' @ sq @ bs @ ''033[1;34m%s'' @ bs @ ''033[0m'' @ bs @ ''n' "$*"; }'',
      ''ok()    { printf '' @ sq @ bs @ ''033[1;32m%s'' @ bs @ ''033[0m'' @ bs @ ''n' "$*"; }'',
      ''warn()  { printf '' @ sq @ bs @ ''033[1;33m%s'' @ bs @ ''033[0m'' @ bs @ ''n' "$*" >&2; }'',
      ''fail()  { printf '' @ sq @ bs @ ''033[1;31mError: %s'' @ bs @ ''033[0m'' @ bs @ ''n' "$*" >&2; exit 1; }'',
      [],
      ''need() {'',
      ''  command -v "$1" &>/dev/null || fail "'$1' is required but not installed."'',
      ''}'',
      [],
      ''# '' @ hrule 2 @ '' Parse args '' @ hrule 55,
      [],
      ''while [[ $# -gt 0 ]]; do'',
      ''  case "$1" in'',
      ''    --version|-v)  VERSION="$2"; shift 2 ;;'',
      ''    --skip-verify) SKIP_VERIFY=true; shift ;;'',
      ''    --help|-h)'',
      ''      echo "Usage: install.sh [--version VERSION] [--skip-verify]"'',
      ''      exit 0'',
      ''      ;;'',
      ''    *) fail "Unknown option: $1" ;;'',
      ''  esac'',
      ''done'',
      [],
      ''# '' @ hrule 2 @ '' Prerequisites '' @ hrule 52,
      [],
      ''need curl'',
      [],
      ''# '' @ hrule 2 @ '' Detect architecture '' @ hrule 45,
      [],
      ''ARCH=$(uname -m)'',
      ''case "$ARCH" in'',
      ''  x86_64)  ARCH="amd64" ;;'',
      ''  aarch64) ARCH="arm64" ;;'',
      ''  *) fail "Unsupported architecture: $ARCH" ;;'',
      ''esac'',
      [],
      ''info "Detected architecture: $ARCH"'',
      [],
      ''# '' @ hrule 2 @ '' Resolve version '' @ hrule 49,
      [],
      ''if [[ -z "$VERSION" ]]; then'',
      ''  info "Fetching latest release..."'',
      ''  VERSION=$(curl -fsSL "https://api.github.com/repos/${GITHUB_REPO}/releases/latest" '' @ bs,
      ''    | grep '"tag_name"' | head -1 | sed 's/.*"v'' @ bs @ ''([^"]*'' @ bs @ '')".*/'' @ bs @ ''1/')'',
      ''  [[ -n "$VERSION" ]] || fail "Could not determine latest version"'',
      ''fi'',
      [],
      ''info "Installing McpMux v${VERSION}"'',
      [],
      ''# '' @ hrule 2 @ '' GPG verification helper '' @ hrule 41,
      [],
      ''verify_signature() {'',
      ''  local file="$1"'',
      ''  if [[ "$SKIP_VERIFY" == "true" ]]; then'',
      ''    warn "Skipping signature verification (--skip-verify)"'',
      ''    return 0'',
      ''  fi'',
      ''  if ! command -v gpg &>/dev/null; then'',
      ''    warn "gpg not found '' @ emdash @ '' skipping signature verification"'',
      ''    warn "Install gnupg and re-run, or use --skip-verify to suppress this warning"'',
      ''    return 0'',
      ''  fi'',
      [],
      ''  local sig_url="https://github.com/${GITHUB_REPO}/releases/download/v${VERSION}/$(basename "$file").sig"'',
      ''  local sig_file="${file}.sig"'',
      [],
      ''  if curl -fsSL -o "$sig_file" "$sig_url" 2>/dev/null; then'',
      ''    # Import McpMux signing key if not already present'',
      ''    if ! gpg --list-keys hello@mcpmux.com &>/dev/null 2>&1; then'',
      ''      curl -fsSL https://apt.mcpmux.com/key.gpg | gpg --import --quiet 2>/dev/null || true'',
      ''    fi'',
      ''    if gpg --verify "$sig_file" "$file" 2>/dev/null; then'',
      ''      ok "Signature verified"'',
      ''    else'',
      ''      warn "Signature verification failed '' @ emdash @ '' package may not be signed yet"'',
      ''    fi'',
      ''    rm -f "$sig_file"'',
      ''  else'',
      ''    warn "No signature file found '' @ emdash @ '' skipping verification"'',
      ''  fi'',
      ''}'',
      [],
      ''# '' @ hrule 2 @ '' Install via detected package manager '' @ hrule 29,
      [],
      ''install_deb() {'',
      ''  local deb_name="mcpmux_${VERSION}_${ARCH}.deb"'',
      ''  local deb_url="https://github.com/${GITHUB_REPO}/releases/download/v${VERSION}/${deb_name}"'',
      ''  local tmp="/tmp/mcpmux.deb"'',
      [],
      ''  info "Downloading .deb package..."'',
      ''  curl -fsSL -o "$tmp" "$deb_url" || fail "Download failed: $deb_url"'',
      ''  verify_signature "$tmp"'',
      [],
      ''  info "Installing..."'',
      ''  sudo apt-get install -y "$tmp"'',
      ''  rm -f "$tmp"'',
      [],
      ''  echo ""'',
      ''  info "Tip: For automatic updates via apt, add the McpMux repository:"'',
      ''  echo "  curl -fsSL https://install.mcpmux.com/apt | sudo bash"'',
      ''}'',
      [],
      ''install_rpm() {'',
      ''  local rpm_name="mcpmux-${VERSION}-1.${ARCH}.rpm"'',
      ''  local rpm_url="https://github.com/${GITHUB_REPO}/releases/download/v${VERSION}/${rpm_name}"'',
      ''  local tmp="/tmp/mcpmux.rpm"'',
      [],
      ''  info "Downloading .rpm package..."'',
      ''  curl -fsSL -o "$tmp" "$rpm_url" || fail "Download failed: $rpm_url"'',
      ''  verify_signature "$tmp"'',
      [],
      ''  info "Installing..."'',
      ''  sudo dnf install -y "$tmp"'',
      ''  rm -f "$tmp"'',
      ''}'',
      [],
      ''install_pacman() {'',
      ''  if command -v yay &>/dev/null; then'',
      ''    info "Installing from AUR via yay..."'',
      ''    yay -S mcpmux-bin'',
      ''  elif command -v paru &>/dev/null; then'',
      ''    info "Installing from AUR via paru..."'',
      ''    paru -S mcpmux-bin'',
      ''  else'',
      ''    warn "No AUR helper found (yay or paru)."'',
      ''    echo ""'',
      ''    echo "Option 1: Install an AUR helper first:"'',
      ''    echo "  sudo pacman -S --needed git base-devel"'',
      ''    echo "  git clone https://aur.archlinux.org/yay-bin.git && cd yay-bin && makepkg -si"'',
      ''    echo "  yay -S mcpmux-bin"'',
      ''    echo ""'',
      ''    echo "Option 2: Download the AppImage:"'',
      ''    echo "  https://github.com/${GITHUB_REPO}/releases/latest"'',
      ''    exit 1'',
      ''  fi'',
      ''}'',
      [],
      ''install_appimage() {'',
      ''  local appimage_name="McpMux_${VERSION}_${ARCH}.AppImage"'',
      ''  local appimage_url="https://github.com/${GITHUB_REPO}/releases/download/v${VERSION}/${appimage_name}"'',
      ''  local install_dir="${HOME}/.local/bin"'',
      ''  local install_path="${install_dir}/McpMux.AppImage"'',
      [],
      ''  info "No supported package manager found '' @ emdash @ '' installing AppImage..."'',
      ''  mkdir -p "$install_dir"'',
      [],
      ''  info "Downloading AppImage..."'',
      ''  curl -fsSL -o "$install_path" "$appimage_url" || fail "Download failed: $appimage_url"'',
      ''  verify_signature "$install_path"'',
      ''  chmod +x "$install_path"'',
      [],
      ''  ok "Installed to ${install_path}"'',
      [],
      ''  # Check if ~/.local/bin is in PATH'',
      ''  if ! echo "$PATH" | tr ':' '' @ sq @ bs @ ''n' | grep -qx "$install_dir"; then'',
      ''    echo ""'',
      ''    warn "~/.local/bin is not in your PATH. Add it with:"'',
      ''    echo '  echo '' @ sq @ bs @ sq @ sq @ ''export PATH="$HOME/.local/bin:$PATH"'' @ sq @ bs @ sq @ sq @ '' >> ~/.bashrc'' @ sq,
      ''    echo '  source ~/.bashrc'' @ sq,
      ''  fi'',
      ''}'',
      [],
      ''# '' @ hrule 2 @ '' Main '' @ hrule 61,
      [],
      ''# Check if APT repo is already configured (prefer managed updates)'',
      ''if [[ -f /etc/apt/sources.list.d/mcpmux.list ]]; then'',
      ''  info "McpMux APT repository detected '' @ emdash @ '' using apt..."'',
      ''  sudo apt-get update && sudo apt-get install -y mcpmux'',
      ''elif command -v apt-get &>/dev/null; then'',
      ''  install_deb'',
      ''elif command -v dnf &>/dev/null; then'',
      ''  install_rpm'',
      ''elif command -v pacman &>/dev/null; then'',
      ''  install_pacman'',
      ''else'',
      ''  install_appimage'',
      ''fi'',
      [],
      ''echo ""'',
      ''ok "McpMux installed successfully!"'',
      ''echo "Run 'mcpmux' to start."'']\<close>

definition aptSetupScript :: string where
  \<open>aptSetupScript =
     unlines
     [''#!/usr/bin/env bash'',
      ''# McpMux APT Repository Setup'',
      ''# Usage: curl -fsSL https://install.mcpmux.com/apt | sudo bash'',
      ''set -euo pipefail'',
      [],
      ''info()  { printf '' @ sq @ bs @ ''033[1;34m%s'' @ bs @ ''033[0m'' @ bs @ ''n' "$*"; }'',
      ''ok()    { printf '' @ sq @ bs @ ''033[1;32m%s'' @ bs @ ''033[0m'' @ bs @ ''n' "$*"; }'',
      ''fail()  { printf '' @ sq @ bs @ ''033[1;31mError: %s'' @ bs @ ''033[0m'' @ bs @ ''n' "$*" >&2; exit 1; }'',
      [],
      ''# Must run as root'',
      ''[[ $(id -u) -eq 0 ]] || fail "This script must be run as root (use: curl ... | sudo bash)"'',
      [],
      ''info "Adding McpMux APT repository..."'',
      [],
      ''# Add GPG key'',
      ''curl -fsSL https://apt.mcpmux.com/key.gpg | gpg --dearmor -o /usr/share/keyrings/mcpmux-archive-keyring.gpg'',
      [],
      ''# Add APT source'',
      ''echo "deb [arch=$(dpkg --print-architecture) signed-by=/usr/share/keyrings/mcpmux-archive-keyring.gpg] https://apt.mcpmux.com stable main" '' @ bs,
      ''  > /etc/apt/sources.list.d/mcpmux.list'',
      [],
      ''# Install'',
      ''apt-get update'',
      ''apt-get install -y mcpmux'',
      [],
      ''ok "McpMux installed!"'',
      ''echo "Updates will arrive automatically via 'apt upgrade'."'']\<close>

definition landingPage :: string where
  \<open>landingPage =
     join_lines
     [''<!DOCTYPE html>'',
      ''<html lang="en">'',
      ''<head>'',
      ''  <meta charset="utf-8">'',
      ''  <meta name="viewport" content="width=device-width, initial-scale=1">'',
      ''  <title>Install McpMux</title>'',
      ''  <style>'',
      ''    * { margin: 0; padding: 0; box-sizing: border-box; }'',
      ''    body { font-family: -apple-system, BlinkMacSystemFont, "Segoe UI", Roboto, sans-serif; background: #0a0a0a; color: #e5e5e5; min-height: 100vh; display: flex; align-items: center; justify-content: center; }'',
      ''    .container { max-width: 640px; padding: 2rem; }'',
      ''    h1 { font-size: 2rem; margin-bottom: 0.5rem; color: #fff; }'',
      ''    p { margin-bottom: 1.5rem; color: #a3a3a3; line-height: 1.6; }'',
      ''    .code-block { background: #171717; border: 1px solid #262626; border-radius: 8px; padding: 1rem 1.25rem; font-family: "SF Mono", "Fira Code", monospace; font-size: 0.9rem; margin-bottom: 1.5rem; position: relative; overflow-x: auto; }'',
      ''    .code-block code { color: #22c55e; }'',
      ''    .label { font-size: 0.75rem; text-transform: uppercase; letter-spacing: 0.05em; color: #737373; margin-bottom: 0.5rem; }'',
      ''    a { color: #3b82f6; text-decoration: none; }'',
      ''    a:hover { text-decoration: underline; }'',
      ''    .divider { border: none; border-top: 1px solid #262626; margin: 1.5rem 0; }'',
      ''  </style>'',
      ''</head>'',
      ''<body>'',
      ''  <div class="container">'',
      ''    <h1>Install McpMux</h1>'',
      ''    <p>Configure MCP servers once, connect every AI client through a single endpoint.</p>'',
      [],
      ''    <div class="label">Quick install</div>'',
      ''    <div class="code-block"><code>curl -fsSL https://install.mcpmux.com | bash</code></div>'',
      [],
      ''    <div class="label">Specific version</div>'',
      ''    <div class="code-block"><code>curl -fsSL https://install.mcpmux.com | bash -s -- --version 0.0.12</code></div>'',
      [],
      ''    <div class="label">APT repository (Debian/Ubuntu)</div>'',
      ''    <div class="code-block"><code>curl -fsSL https://install.mcpmux.com/apt | sudo bash</code></div>'',
      [],
      ''    <hr class="divider">'',
      [],
      ''    <p>'',
      ''      <a href="https://github.com/mcpmux/mcp-mux">GitHub</a> &middot;'',
      ''      <a href="https://mcpmux.com">Website</a> &middot;'',
      ''      <a href="https://github.com/mcpmux/mcpmux.install">View source</a> &middot;'',
      ''      <a href="/?raw=1">View script</a>'',
      ''    </p>'',
      ''  </div>'',
      ''</body>'',
      ''</html>'']\<close>

text \<open>
  All routes are registered for GET. A GET request as the handlers read it: the path, the
  \<^verbatim>\<open>User-Agent\<close> header and the \<^verbatim>\<open>raw\<close> query parameter, each of the last two absent
  (\<open>None\<close>) or a string. A response is what the handler built it with.
\<close>

record request =
  path :: string
  user_agent :: "string option"
  query_raw :: "string option"

datatype response =
    Html string                                  \<comment> \<open>\<^verbatim>\<open>c.html(body)\<close>\<close>
  | NewResponse string "(string \<times> string) list"   \<comment> \<open>\<^verbatim>\<open>c.newResponse(body, { headers })\<close>\<close>
  | Json "(string \<times> string) list"                \<comment> \<open>\<^verbatim>\<open>c.json(object)\<close>\<close>
  | Text string nat                              \<comment> \<open>\<^verbatim>\<open>c.text(body, status)\<close>\<close>

definition script_headers :: "(string \<times> string) list" where
  "script_headers =
     [(''Content-Type'', ''text/plain; charset=utf-8''),
      (''Cache-Control'', ''public, max-age=300'')]"

definition falsy :: "string option \<Rightarrow> bool" where
  \<comment> \<open>JavaScript's \<^verbatim>\<open>!x\<close> for a string or \<^verbatim>\<open>undefined\<close>: true for \<^verbatim>\<open>undefined\<close> and for the empty string\<close>
  "falsy x = (case x of None \<Rightarrow> True | Some v \<Rightarrow> v = [])"

definition isBrowser :: "string \<Rightarrow> bool" where
  "isBrowser ua =
     (str_includes ua ''Mozilla'' \<or> str_includes ua ''Chrome'' \<or> str_includes ua ''Safari'')"

definition get_root :: "request \<Rightarrow> response" where
  "get_root r =
     (let ua = (case user_agent r of None \<Rightarrow> [] | Some u \<Rightarrow> u)
      in if isBrowser ua \<and> falsy (query_raw r) then Html landingPage
         else NewResponse installScript script_headers)"

definition get_install_sh :: "request \<Rightarrow> response" where
  "get_install_sh r = NewResponse installScript script_headers"

definition get_apt :: "request \<Rightarrow> response" where
  "get_apt r = NewResponse aptSetupScript script_headers"

definition get_health :: "request \<Rightarrow> response" where
  "get_health r = Json [(''status'', ''ok''), (''service'', ''mcpmux-install'')]"

definition notFound :: "request \<Rightarrow> response" where
  "notFound r =
     Text ''Not found. Visit https://install.mcpmux.com for installation instructions.'' 404"

definition app :: "request \<Rightarrow> response" where
  "app r =
     (if path r = ''/'' then get_root r
      else if path r = ''/install.sh'' then get_install_sh r
      else if path r = ''/apt'' then get_apt r
      else if path r = ''/health'' then get_health r
      else notFound r)"

section \<open>The specification's names for the strategies\<close>

text \<open>
  The specification calls the five branches of the main conditional strategies and says
  which one is selected from four flags. \<open>select_strategy\<close> is that selection in the
  specification's words; \<open>strategy_handler\<close> says which part of the script carries a
  strategy out.
\<close>

datatype PackageManagerStrategy = ManagedRepo | AptGet | Dnf | PacmanAUR | AppImageFallback

definition select_strategy :: "bool \<Rightarrow> bool \<Rightarrow> bool \<Rightarrow> bool \<Rightarrow> PackageManagerStrategy" where
  "select_strategy hasAptRepoConfigured hasAptGet hasDnf hasPacman =
     (if hasAptRepoConfigured then ManagedRepo
      else if hasAptGet then AptGet
      else if hasDnf then Dnf
      else if hasPacman then PacmanAUR
      else AppImageFallback)"

fun strategy_handler :: "host \<Rightarrow> PackageManagerStrategy \<Rightarrow> step" where
  "strategy_handler h ManagedRepo = managed_repo_install h"
| "strategy_handler h AptGet = install_deb h"
| "strategy_handler h Dnf = install_rpm h"
| "strategy_handler h PacmanAUR = install_pacman h"
| "strategy_handler h AppImageFallback = install_appimage h"

section \<open>Example machines\<close>

definition plain_host :: host where
  \<comment> \<open>an x86_64 machine with \<^verbatim>\<open>curl\<close> and no package manager, on which every download is
      empty and every command succeeds\<close>
  "plain_host =
     \<lparr>args = [], HOME = ''/home/u'', PATH = ''/usr/bin:/bin'',
      has_cmd = (\<lambda>c. c = ''curl''), uname_m = ''x86_64'',
      curl = (\<lambda>u. (0, [])), run = (\<lambda>a. 0), grep_bre = (\<lambda>p l. False),
      tag_pipeline = (\<lambda>b. (141, [])), early_quit_rc = 141,
      uid = 0, dpkg_arch = ''amd64'', dearmor = (\<lambda>k. k), gpg_dearmor_rc = (\<lambda>k e. 0)\<rparr>"

definition some_file :: regfile where
  "some_file = \<lparr>content = ''deb'', executable = False\<rparr>"

definition v12 :: sys where
  \<comment> \<open>the state after version 0.0.12 was resolved on an amd64 machine without files\<close>
  "v12 = (initial Map.empty)\<lparr>VERSION := ''0.0.12'', ARCH := ''amd64''\<rparr>"

definition failing_gpg_host :: host where
  \<comment> \<open>a machine with \<^verbatim>\<open>apt-get\<close> and \<^verbatim>\<open>gpg\<close>, on which every \<^verbatim>\<open>gpg\<close> command fails\<close>
  "failing_gpg_host =
     plain_host\<lparr>has_cmd := (\<lambda>c. c = ''curl'' \<or> c = ''gpg'' \<or> c = ''apt-get''),
                run := (\<lambda>a. if take 1 a = [''gpg''] then 2 else 0)\<rparr>"

definition release_host :: host where
  \<comment> \<open>the same machine, with a release 0.0.12 published\<close>
  \<open>release_host =
     failing_gpg_host\<lparr>curl := (\<lambda>u. if u = latest_url then (0, ''{"tag_name":"v0.0.12"}'')
                                   else (0, ''data''))\<rparr>\<close>

definition broken_apt_host :: host where
  \<comment> \<open>a machine with \<^verbatim>\<open>apt-get\<close> and \<^verbatim>\<open>dnf\<close> on which installing a package file fails\<close>
  "broken_apt_host =
     plain_host\<lparr>has_cmd := (\<lambda>c. c = ''curl'' \<or> c = ''apt-get'' \<or> c = ''dnf''),
                run := (\<lambda>a. if take 3 a = [''sudo'', ''apt-get'', ''install''] then 100
                             else if take 3 a = [''sudo'', ''dnf'', ''install''] then 1 else 0)\<rparr>"

definition arch_host :: host where
  \<comment> \<open>an Arch Linux machine without an AUR helper\<close>
  "arch_host = release_host\<lparr>has_cmd := (\<lambda>c. c = ''curl'' \<or> c = ''pacman'')\<rparr>"



definition riscv_host :: host where
  \<comment> \<open>a machine of another architecture\<close>
  "riscv_host = release_host\<lparr>uname_m := ''riscv64''\<rparr>"

definition lookalike_path_host :: host where
  \<comment> \<open>a machine without package manager whose search path holds a directory that differs
      from \<^verbatim>\<open>~/.local/bin\<close> in the place of the dot\<close>
  "lookalike_path_host = release_host\<lparr>has_cmd := (\<lambda>c. c = ''curl''),
                                       PATH := ''/home/u/xlocal/bin:/usr/bin''\<rparr>"



definition apt_dnf_host :: host where
  \<comment> \<open>a machine with both \<^verbatim>\<open>apt-get\<close> and \<^verbatim>\<open>dnf\<close>\<close>
  "apt_dnf_host = plain_host\<lparr>has_cmd := (\<lambda>c. c = ''curl'' \<or> c = ''apt-get'' \<or> c = ''dnf'')\<rparr>"

definition repo_state :: sys where
  \<comment> \<open>version 0.0.12 resolved on a machine where the repository is configured already\<close>
  "repo_state = v12\<lparr>fs := [sources_list_path \<mapsto> some_file]\<rparr>"

definition browser_request :: request where
  \<comment> \<open>a browser asking for the root page with an empty \<^verbatim>\<open>raw\<close> parameter (\<^verbatim>\<open>/?raw=\<close>)\<close>
  "browser_request =
     \<lparr>path = ''/'', user_agent = Some ''Mozilla/5.0'', query_raw = Some []\<rparr>"

section \<open>Growth of the trace\<close>

definition grows :: "step \<Rightarrow> bool" where
  \<comment> \<open>the step only adds to the trace\<close>
  "grows c = (\<forall>s. \<exists>new. trace (state_of (c s)) = trace s @ new)"

definition first_new :: "sys \<Rightarrow> outcome \<Rightarrow> event option" where
  \<comment> \<open>the first event a step added to the trace of the state it started in\<close>
  "first_new s r = (case drop (length (trace s)) (trace (state_of r)) of [] \<Rightarrow> None | e # es \<Rightarrow> Some e)"

definition strategy_of_event :: "event \<Rightarrow> PackageManagerStrategy option" where
  \<comment> \<open>every strategy starts with a line of its own\<close>
  "strategy_of_event e =
     (if e = Info msg_managed then Some ManagedRepo
      else if e = Info ''Downloading .deb package...'' then Some AptGet
      else if e = Info ''Downloading .rpm package...'' then Some Dnf
      else if e = Info ''Installing from AUR via yay...''
              \<or> e = Info ''Installing from AUR via paru...''
              \<or> e = Warn ''No AUR helper found (yay or paru).'' then Some PacmanAUR
      else if e = Info msg_appimage then Some AppImageFallback
      else None)"

section \<open>Facts about the shell\<close>

lemmas sh_defs = info_def ok_def warn_def echo_def fail_def skip_def errexit_def if_cmd_def
  or_true_def or_else_def and_list_def exec_def curl_o_def curl_pipe_def rm_f_def chmod_x_def
  mkdir_p_def emit_def write_file_def pipefail_def

lemmas msg_defs = msg_skip_flag_def msg_no_gpg_def msg_no_sig_def msg_verified_def
  msg_verify_failed_def msg_path_warning_def emdash_def

lemmas eval_defs = sh_defs msg_defs release_url_def GITHUB_REPO_def basename_def key_url_def
  deb_url_def rpm_url_def appimage_url_def install_dir_def install_path_def Let_def

lemma reported_outcomes_append:
  "reported_outcomes (xs @ ys) = reported_outcomes xs @ reported_outcomes ys"
  by (induction xs) (simp_all split: option.splits)

lemma net_calls_append: "net_calls (xs @ ys) = net_calls xs @ net_calls ys"
  by (induction xs rule: net_calls.induct) simp_all

lemma verify_signature_cases:
  "\<exists>new keep. verify_signature h f s =
       Next (s\<lparr>fs := (if keep then fs s else (fs s)(f @ ''.sig'' := None)), trace := trace s @ new\<rparr>)
     \<and> (\<exists>v. reported_outcomes new = [v]) \<and> Warn msg_path_warning \<notin> set new"
proof (cases "SKIP_VERIFY s = ''true''")
  case True
  then show ?thesis
    by (intro exI[of _ "[Warn msg_skip_flag]"] exI[of _ True])
       (simp add: verify_signature_def sh_defs msg_defs)
next
  case off: False
  show ?thesis
  proof (cases "has_cmd h ''gpg''")
    case False
    with off show ?thesis
      by (intro exI[of _ "[Warn msg_no_gpg,
            Warn ''Install gnupg and re-run, or use --skip-verify to suppress this warning'']"]
            exI[of _ True])
         (simp add: verify_signature_def sh_defs msg_defs)
  next
    case gpg: True
    obtain rc body where c: "curl h (release_url s (basename f @ ''.sig'')) = (rc, body)"
      by (cases "curl h (release_url s (basename f @ ''.sig''))")
    show ?thesis
    proof (cases "rc = 0")
      case False
      with off gpg c show ?thesis
        by (intro exI[of _ "[Curl (release_url s (basename f @ ''.sig'')), Warn msg_no_sig]"]
              exI[of _ True])
           (simp add: verify_signature_def sh_defs msg_defs Let_def)
    next
      case True
      with off gpg c show ?thesis
        by (intro exI[of _ "Curl (release_url s (basename f @ ''.sig''))
              # Exec [''gpg'', ''--list-keys'', ''hello@mcpmux.com'']
              # (if run h [''gpg'', ''--list-keys'', ''hello@mcpmux.com''] = 0 then []
                 else [Curl key_url, Exec [''gpg'', ''--import'', ''--quiet'']])
              @ [Exec [''gpg'', ''--verify'', f @ ''.sig'', f],
                 if run h [''gpg'', ''--verify'', f @ ''.sig'', f] = 0 then Okay msg_verified
                 else Warn msg_verify_failed]"]
              exI[of _ False])
           (simp add: verify_signature_def sh_defs msg_defs Let_def)
    qed
  qed
qed

lemma verify_signature_Next:
  obtains s' where "verify_signature h f s = Next s'"
    and "VERSION s' = VERSION s" and "ARCH s' = ARCH s" and "SKIP_VERIFY s' = SKIP_VERIFY s"
    and "fs s' f = fs s f"
    and "\<exists>new. trace s' = trace s @ new \<and> (\<exists>v. reported_outcomes new = [v])"
    and "Warn msg_path_warning \<notin> set (drop (length (trace s)) (trace s'))"
proof -
  from verify_signature_cases[of h f s] obtain new keep where
    r: "verify_signature h f s =
       Next (s\<lparr>fs := (if keep then fs s else (fs s)(f @ ''.sig'' := None)), trace := trace s @ new\<rparr>)"
    and v: "\<exists>v. reported_outcomes new = [v]" "Warn msg_path_warning \<notin> set new"
    by blast
  show thesis
    by (rule that[OF r]) (use v in auto)
qed

section \<open>Signature verification\<close>

text \<open>
  Claim C2. For every artifact and every value of the skip flag, \<^verbatim>\<open>verify_signature\<close>
  returns to its caller, and what it reports is exactly one of the five outcomes
  \<open>Verified\<close>, \<open>SkippedByFlag\<close>, \<open>SkippedNoTool\<close>, \<open>SkippedNoSignature\<close> and
  \<open>FailedSoft\<close>: no failure inside it ends the process. Its three callers go on to the
  install step whenever the download before it succeeded: \<^verbatim>\<open>install_deb\<close> runs
  \<^verbatim>\<open>apt-get install\<close>, \<^verbatim>\<open>install_rpm\<close> runs \<^verbatim>\<open>dnf install\<close>, and
  \<^verbatim>\<open>install_appimage\<close> finishes with the file marked executable.
\<close>

theorem verify_signature_never_fatal:
  "(\<exists>s' v. verify_signature h f s = Next s'
       \<and> reported_outcomes (drop (length (trace s)) (trace s')) = [v]
       \<and> v \<in> {Verified, SkippedByFlag, SkippedNoTool, SkippedNoSignature, FailedSoft})
   \<and> (fst (curl h (deb_url s)) = 0 \<longrightarrow>
        Exec [''sudo'', ''apt-get'', ''install'', ''-y'', ''/tmp/mcpmux.deb'']
          \<in> set (trace (state_of (install_deb h s))))
   \<and> (fst (curl h (rpm_url s)) = 0 \<longrightarrow>
        Exec [''sudo'', ''dnf'', ''install'', ''-y'', ''/tmp/mcpmux.rpm'']
          \<in> set (trace (state_of (install_rpm h s))))
   \<and> (fst (curl h (appimage_url s)) = 0 \<longrightarrow>
        (\<exists>s' b. install_appimage h s = Next s'
           \<and> fs s' (install_path h) = Some \<lparr>content = b, executable = True\<rparr>))"
proof (intro conjI impI)
  obtain s' where r: "verify_signature h f s = Next s'"
    and t: "\<exists>new. trace s' = trace s @ new \<and> (\<exists>v. reported_outcomes new = [v])"
    by (rule verify_signature_Next)
  from t obtain v where "reported_outcomes (drop (length (trace s)) (trace s')) = [v]"
    by auto
  moreover have "v \<in> {Verified, SkippedByFlag, SkippedNoTool, SkippedNoSignature, FailedSoft}"
    by (cases v) simp_all
  ultimately show "\<exists>s' v. verify_signature h f s = Next s'
       \<and> reported_outcomes (drop (length (trace s)) (trace s')) = [v]
       \<and> v \<in> {Verified, SkippedByFlag, SkippedNoTool, SkippedNoSignature, FailedSoft}"
    using r by blast
next
  assume d: "fst (curl h (deb_url s)) = 0"
  define s1 where "s1 = write_file ''/tmp/mcpmux.deb'' (snd (curl h (deb_url s)))
     (emit (Curl (deb_url s)) (emit (Info ''Downloading .deb package...'') s))"
  obtain s2 where r: "verify_signature h ''/tmp/mcpmux.deb'' s1 = Next s2"
    by (rule verify_signature_Next)
  from d r show "Exec [''sudo'', ''apt-get'', ''install'', ''-y'', ''/tmp/mcpmux.deb'']
          \<in> set (trace (state_of (install_deb h s)))"
    by (cases "curl h (deb_url s)")
       (simp add: install_deb_def sh_defs s1_def Let_def)
next
  assume d: "fst (curl h (rpm_url s)) = 0"
  define s1 where "s1 = write_file ''/tmp/mcpmux.rpm'' (snd (curl h (rpm_url s)))
     (emit (Curl (rpm_url s)) (emit (Info ''Downloading .rpm package...'') s))"
  obtain s2 where r: "verify_signature h ''/tmp/mcpmux.rpm'' s1 = Next s2"
    by (rule verify_signature_Next)
  from d r show "Exec [''sudo'', ''dnf'', ''install'', ''-y'', ''/tmp/mcpmux.rpm'']
          \<in> set (trace (state_of (install_rpm h s)))"
    by (cases "curl h (rpm_url s)")
       (simp add: install_rpm_def sh_defs s1_def Let_def)
next
  assume d: "fst (curl h (appimage_url s)) = 0"
  define s1 where "s1 = write_file (install_path h) (snd (curl h (appimage_url s)))
     (emit (Curl (appimage_url s)) (emit (Info ''Downloading AppImage...'')
        (emit (Exec [''mkdir'', ''-p'', install_dir h]) (emit (Info msg_appimage) s))))"
  obtain s2 where r: "verify_signature h (install_path h) s1 = Next s2"
    and f: "fs s2 (install_path h) = fs s1 (install_path h)"
    by (rule verify_signature_Next)
  from d r f show "\<exists>s' b. install_appimage h s = Next s'
           \<and> fs s' (install_path h) = Some \<lparr>content = b, executable = True\<rparr>"
    by (cases "curl h (appimage_url s)")
       (simp add: install_appimage_def sh_defs s1_def Let_def grep_qx_path_def)
qed

text \<open>
  The theorem at a machine whose \<^verbatim>\<open>gpg\<close> fails on every call: the downloads succeed, the
  callers proceed, and the verification itself reports \<open>FailedSoft\<close>.
\<close>

theorem verify_signature_never_fatal_witness:
  "fst (curl failing_gpg_host (deb_url v12)) = 0
   \<and> Exec [''sudo'', ''apt-get'', ''install'', ''-y'', ''/tmp/mcpmux.deb'']
        \<in> set (trace (state_of (install_deb failing_gpg_host v12)))
   \<and> fst (curl failing_gpg_host (rpm_url v12)) = 0
   \<and> Exec [''sudo'', ''dnf'', ''install'', ''-y'', ''/tmp/mcpmux.rpm'']
        \<in> set (trace (state_of (install_rpm failing_gpg_host v12)))
   \<and> fst (curl failing_gpg_host (appimage_url v12)) = 0
   \<and> (\<exists>s' b. install_appimage failing_gpg_host v12 = Next s'
         \<and> fs s' (install_path failing_gpg_host) = Some \<lparr>content = b, executable = True\<rparr>)
   \<and> reported_outcomes (trace (state_of (verify_signature failing_gpg_host ''/tmp/mcpmux.deb'' v12)))
       = [FailedSoft]"
  using verify_signature_never_fatal [of failing_gpg_host "''/tmp/mcpmux.deb''" v12]
  by (simp add: failing_gpg_host_def plain_host_def verify_signature_def v12_def initial_def eval_defs)

text \<open>
  Claim C6. Whenever \<^verbatim>\<open>SKIP_VERIFY\<close> is \<^verbatim>\<open>true\<close>, \<^verbatim>\<open>verify_signature\<close> only prints its
  warning: the outcome it reports is \<open>SkippedByFlag\<close>, it requests nothing from the network
  (neither the detached signature nor the public key) and it leaves the files alone.
\<close>

theorem skip_verify_makes_no_network_call:
  "SKIP_VERIFY s = ''true'' \<Longrightarrow>
     (\<exists>s'. verify_signature h f s = Next s'
        \<and> trace s' = trace s @ [Warn msg_skip_flag]
        \<and> reported_outcomes (drop (length (trace s)) (trace s')) = [SkippedByFlag]
        \<and> net_calls (trace s') = net_calls (trace s)
        \<and> fs s' = fs s)"
  by (simp add: verify_signature_def sh_defs net_calls_append msg_skip_flag_def)

text \<open>
  The theorem at a machine with \<^verbatim>\<open>gpg\<close>; and a whole run with \<^verbatim>\<open>--skip-verify\<close> on such
  a machine, which fetches the release metadata and the package and nothing else.
\<close>

theorem skip_verify_makes_no_network_call_witness:
  "SKIP_VERIFY (v12\<lparr>SKIP_VERIFY := ''true''\<rparr>) = ''true''
   \<and> (\<exists>s'. verify_signature failing_gpg_host ''/tmp/mcpmux.deb'' (v12\<lparr>SKIP_VERIFY := ''true''\<rparr>) = Next s'
        \<and> trace s' = [Warn msg_skip_flag] \<and> net_calls (trace s') = [])
   \<and> net_calls (trace (state_of (install_main (release_host\<lparr>args := [''--skip-verify'']\<rparr>)
          (initial Map.empty))))
       = [latest_url,
          ''https://github.com/mcpmux/mcp-mux/releases/download/v0.0.12/mcpmux_0.0.12_amd64.deb'']"
  using skip_verify_makes_no_network_call
          [of "v12\<lparr>SKIP_VERIFY := ''true''\<rparr>" failing_gpg_host "''/tmp/mcpmux.deb''"]
  by (simp add: v12_def initial_def install_main_def release_host_def failing_gpg_host_def
        plain_host_def need_def detect_arch_def resolve_version_def latest_tag_def text_body_def latest_url_def
        sed_strip_v_def has_tag_name_def dispatch_def is_file_def install_deb_def
        verify_signature_def eval_defs)

section \<open>The temporary package file\<close>

text \<open>
  Claim C5, amended. In a run of \<^verbatim>\<open>install_deb\<close> or \<^verbatim>\<open>install_rpm\<close> whose download
  succeeded: when the package manager's install command succeeds, the downloaded file
  \<^verbatim>\<open>/tmp/mcpmux.deb\<close> (\<^verbatim>\<open>/tmp/mcpmux.rpm\<close>) is removed; when the command fails, the run
  ends at once with the command's exit status and the file is left where it was
  downloaded.
\<close>

theorem temp_file_removed_when_install_succeeds:
  "(fst (curl h (deb_url s)) = 0 \<longrightarrow>
      (run h [''sudo'', ''apt-get'', ''install'', ''-y'', ''/tmp/mcpmux.deb''] = 0 \<longrightarrow>
         (\<exists>s'. install_deb h s = Next s' \<and> fs s' ''/tmp/mcpmux.deb'' = None))
    \<and> (run h [''sudo'', ''apt-get'', ''install'', ''-y'', ''/tmp/mcpmux.deb''] \<noteq> 0 \<longrightarrow>
         (\<exists>s'. install_deb h s
                  = Exit (run h [''sudo'', ''apt-get'', ''install'', ''-y'', ''/tmp/mcpmux.deb'']) s'
               \<and> map_option content (fs s' ''/tmp/mcpmux.deb'') = Some (snd (curl h (deb_url s))))))
   \<and> (fst (curl h (rpm_url s)) = 0 \<longrightarrow>
      (run h [''sudo'', ''dnf'', ''install'', ''-y'', ''/tmp/mcpmux.rpm''] = 0 \<longrightarrow>
         (\<exists>s'. install_rpm h s = Next s' \<and> fs s' ''/tmp/mcpmux.rpm'' = None))
    \<and> (run h [''sudo'', ''dnf'', ''install'', ''-y'', ''/tmp/mcpmux.rpm''] \<noteq> 0 \<longrightarrow>
         (\<exists>s'. install_rpm h s
                  = Exit (run h [''sudo'', ''dnf'', ''install'', ''-y'', ''/tmp/mcpmux.rpm'']) s'
               \<and> map_option content (fs s' ''/tmp/mcpmux.rpm'') = Some (snd (curl h (rpm_url s))))))"
proof (intro conjI impI)
  define s1 where "s1 = write_file ''/tmp/mcpmux.deb'' (snd (curl h (deb_url s)))
     (emit (Curl (deb_url s)) (emit (Info ''Downloading .deb package...'') s))"
  obtain s2 where r: "verify_signature h ''/tmp/mcpmux.deb'' s1 = Next s2"
    and f: "fs s2 ''/tmp/mcpmux.deb'' = fs s1 ''/tmp/mcpmux.deb''"
    by (rule verify_signature_Next)
  assume d: "fst (curl h (deb_url s)) = 0"
  {
    assume "run h [''sudo'', ''apt-get'', ''install'', ''-y'', ''/tmp/mcpmux.deb''] = 0"
    with d r show "\<exists>s'. install_deb h s = Next s' \<and> fs s' ''/tmp/mcpmux.deb'' = None"
      by (cases "curl h (deb_url s)") (simp add: install_deb_def sh_defs s1_def Let_def)
  next
    assume "run h [''sudo'', ''apt-get'', ''install'', ''-y'', ''/tmp/mcpmux.deb''] \<noteq> 0"
    with d r f show "\<exists>s'. install_deb h s
                  = Exit (run h [''sudo'', ''apt-get'', ''install'', ''-y'', ''/tmp/mcpmux.deb'']) s'
               \<and> map_option content (fs s' ''/tmp/mcpmux.deb'') = Some (snd (curl h (deb_url s)))"
      by (cases "curl h (deb_url s)") (simp add: install_deb_def sh_defs s1_def Let_def)
  }
next
  define s1 where "s1 = write_file ''/tmp/mcpmux.rpm'' (snd (curl h (rpm_url s)))
     (emit (Curl (rpm_url s)) (emit (Info ''Downloading .rpm package...'') s))"
  obtain s2 where r: "verify_signature h ''/tmp/mcpmux.rpm'' s1 = Next s2"
    and f: "fs s2 ''/tmp/mcpmux.rpm'' = fs s1 ''/tmp/mcpmux.rpm''"
    by (rule verify_signature_Next)
  assume d: "fst (curl h (rpm_url s)) = 0"
  {
    assume "run h [''sudo'', ''dnf'', ''install'', ''-y'', ''/tmp/mcpmux.rpm''] = 0"
    with d r show "\<exists>s'. install_rpm h s = Next s' \<and> fs s' ''/tmp/mcpmux.rpm'' = None"
      by (cases "curl h (rpm_url s)") (simp add: install_rpm_def sh_defs s1_def Let_def)
  next
    assume "run h [''sudo'', ''dnf'', ''install'', ''-y'', ''/tmp/mcpmux.rpm''] \<noteq> 0"
    with d r f show "\<exists>s'. install_rpm h s
                  = Exit (run h [''sudo'', ''dnf'', ''install'', ''-y'', ''/tmp/mcpmux.rpm'']) s'
               \<and> map_option content (fs s' ''/tmp/mcpmux.rpm'') = Some (snd (curl h (rpm_url s)))"
      by (cases "curl h (rpm_url s)") (simp add: install_rpm_def sh_defs s1_def Let_def)
  }
qed

text \<open>
  The claim as it was stated asks for the removal on failure too. On a machine whose
  \<^verbatim>\<open>apt-get install\<close> fails with status 100 the run ends with that status right after the
  command, and the file is still there; likewise for \<^verbatim>\<open>dnf\<close>.
\<close>

theorem temp_file_left_when_install_fails_counterexample:
  "install_deb broken_apt_host v12
     = Exit 100 (v12\<lparr>fs := [''/tmp/mcpmux.deb'' \<mapsto> \<lparr>content = [], executable = False\<rparr>],
                     trace := [Info ''Downloading .deb package...'', Curl (deb_url v12),
                               Warn msg_no_gpg,
                               Warn ''Install gnupg and re-run, or use --skip-verify to suppress this warning'',
                               Info ''Installing...'',
                               Exec [''sudo'', ''apt-get'', ''install'', ''-y'', ''/tmp/mcpmux.deb'']]\<rparr>)
   \<and> fs (state_of (install_deb broken_apt_host v12)) ''/tmp/mcpmux.deb'' \<noteq> None
   \<and> fs (state_of (install_rpm broken_apt_host v12)) ''/tmp/mcpmux.rpm'' \<noteq> None"
  by (simp add: v12_def initial_def broken_apt_host_def plain_host_def install_deb_def install_rpm_def
        verify_signature_def eval_defs)

text \<open>
  The theorem at that machine, and at one where the install commands succeed.
\<close>

theorem temp_file_removed_when_install_succeeds_witness:
  "fst (curl broken_apt_host (deb_url v12)) = 0
   \<and> run broken_apt_host [''sudo'', ''apt-get'', ''install'', ''-y'', ''/tmp/mcpmux.deb''] \<noteq> 0
   \<and> (\<exists>s'. install_deb broken_apt_host v12 = Exit 100 s'
          \<and> map_option content (fs s' ''/tmp/mcpmux.deb'') = Some [])
   \<and> fst (curl broken_apt_host (rpm_url v12)) = 0
   \<and> run broken_apt_host [''sudo'', ''dnf'', ''install'', ''-y'', ''/tmp/mcpmux.rpm''] \<noteq> 0
   \<and> (\<exists>s'. install_rpm broken_apt_host v12 = Exit 1 s'
          \<and> map_option content (fs s' ''/tmp/mcpmux.rpm'') = Some [])
   \<and> fst (curl failing_gpg_host (deb_url v12)) = 0
   \<and> run failing_gpg_host [''sudo'', ''apt-get'', ''install'', ''-y'', ''/tmp/mcpmux.deb''] = 0
   \<and> (\<exists>s'. install_deb failing_gpg_host v12 = Next s' \<and> fs s' ''/tmp/mcpmux.deb'' = None)
   \<and> fst (curl failing_gpg_host (rpm_url v12)) = 0
   \<and> run failing_gpg_host [''sudo'', ''dnf'', ''install'', ''-y'', ''/tmp/mcpmux.rpm''] = 0
   \<and> (\<exists>s'. install_rpm failing_gpg_host v12 = Next s' \<and> fs s' ''/tmp/mcpmux.rpm'' = None)"
  using temp_file_removed_when_install_succeeds [of broken_apt_host v12]
        temp_file_removed_when_install_succeeds [of failing_gpg_host v12]
  by (simp add: broken_apt_host_def failing_gpg_host_def plain_host_def)

section \<open>Every strategy starts with its own line\<close>

lemma grows_seq: "list_all grows cs \<Longrightarrow> grows (seq cs)"
proof (induction cs)
  case Nil
  show ?case by (simp add: grows_def)
next
  case (Cons c cs)
  then have c: "grows c" and cs: "grows (seq cs)" by simp_all
  show ?case
    unfolding grows_def
  proof
    fix s
    from c obtain n1 where n1: "trace (state_of (c s)) = trace s @ n1"
      unfolding grows_def by blast
    show "\<exists>new. trace (state_of (seq (c # cs) s)) = trace s @ new"
    proof (cases "c s")
      case (Next s')
      from cs obtain n2 where "trace (state_of (seq cs s')) = trace s' @ n2"
        unfolding grows_def by blast
      with Next n1 show ?thesis by simp
    next
      case (Exit n s')
      with n1 show ?thesis by simp
    qed
  qed
qed

lemma grows_basic:
  "grows (info m)" "grows (ok m)" "grows (warn m)" "grows (echo m)" "grows (fail m)" "grows skip"
  "grows (rm_f p)" "grows (chmod_x p)" "grows (mkdir_p p)" "grows (errexit (exec h argv))"
  "grows (or_else (curl_o h p u) (fail m))" "grows (and_list (exec h argv) (exec h argv'))"
  "grows (\<lambda>s. Exit n s)"
  by (auto simp: grows_def sh_defs split: prod.splits option.splits)

lemma grows_verify_signature: "grows (verify_signature h f)"
  unfolding grows_def
proof
  fix s
  from verify_signature_cases[of h f s] show "\<exists>new. trace (state_of (verify_signature h f s)) = trace s @ new"
    by auto
qed

lemma grows_if_cmd_grep: "grows a \<Longrightarrow> grows b \<Longrightarrow> grows (if_cmd (grep_qx_path h d) a b)"
  by (simp add: grows_def if_cmd_def grep_qx_path_def)

lemma first_new_seq_emit:
  assumes "list_all grows cs" and "\<And>s. c s = Next (emit e s)"
  shows "first_new s (seq (c # cs) s) = Some e"
proof -
  from grows_seq[OF assms(1)] obtain new where
    "trace (state_of (seq cs (emit e s))) = trace (emit e s) @ new"
    unfolding grows_def by blast
  then show ?thesis
    by (simp add: first_new_def assms(2) emit_def)
qed

lemma first_new_seq_info: "list_all grows cs \<Longrightarrow> first_new s (seq (info m # cs) s) = Some (Info m)"
  by (rule first_new_seq_emit) (simp_all add: info_def)

lemma first_new_seq_warn: "list_all grows cs \<Longrightarrow> first_new s (seq (warn m # cs) s) = Some (Warn m)"
  by (rule first_new_seq_emit) (simp_all add: warn_def)

lemma first_new_managed: "first_new s (managed_repo_install h s) = Some (Info msg_managed)"
  unfolding managed_repo_install_def
  by (rule first_new_seq_info) (simp add: grows_basic)

lemma first_new_deb: "first_new s (install_deb h s) = Some (Info ''Downloading .deb package...'')"
  unfolding install_deb_def Let_def
  by (rule first_new_seq_info) (simp add: grows_basic grows_verify_signature)

lemma first_new_rpm: "first_new s (install_rpm h s) = Some (Info ''Downloading .rpm package...'')"
  unfolding install_rpm_def Let_def
  by (rule first_new_seq_info) (simp add: grows_basic grows_verify_signature)

lemma first_new_appimage: "first_new s (install_appimage h s) = Some (Info msg_appimage)"
  unfolding install_appimage_def
  by (rule first_new_seq_info)
     (simp add: grows_basic grows_verify_signature grows_if_cmd_grep grows_seq)

lemma first_new_pacman:
  "first_new s (install_pacman h s) =
     Some (if has_cmd h ''yay'' then Info ''Installing from AUR via yay...''
           else if has_cmd h ''paru'' then Info ''Installing from AUR via paru...''
           else Warn ''No AUR helper found (yay or paru).'')"
proof -
  have "first_new s (seq ([warn ''No AUR helper found (yay or paru).''] @ map echo aur_instructions
             @ [\<lambda>s'. Exit 1 s']) s) = Some (Warn ''No AUR helper found (yay or paru).'')"
    unfolding append_Cons append_Nil
    by (rule first_new_seq_warn) (simp add: grows_basic list_all_iff)
  moreover have "first_new s (seq [info ''Installing from AUR via yay...'',
             errexit (exec h [''yay'', ''-S'', ''mcpmux-bin''])] s) = Some (Info ''Installing from AUR via yay...'')"
    by (rule first_new_seq_info) (simp add: grows_basic)
  moreover have "first_new s (seq [info ''Installing from AUR via paru...'',
             errexit (exec h [''paru'', ''-S'', ''mcpmux-bin''])] s) = Some (Info ''Installing from AUR via paru...'')"
    by (rule first_new_seq_info) (simp add: grows_basic)
  ultimately show ?thesis
    by (simp add: install_pacman_def)
qed

lemma strategy_of_first_event:
  "map_option strategy_of_event (first_new s (strategy_handler h st s)) = Some (Some st)"
  by (cases st)
     (simp_all add: first_new_managed first_new_deb first_new_rpm first_new_pacman
        first_new_appimage strategy_of_event_def msg_managed_def msg_appimage_def)

lemma strategy_handler_inj:
  assumes "strategy_handler h st s = strategy_handler h st' s"
  shows "st = st'"
proof -
  have "Some (Some st) = map_option strategy_of_event (first_new s (strategy_handler h st s))"
    by (simp add: strategy_of_first_event)
  also have "\<dots> = Some (Some st')"
    unfolding assms by (rule strategy_of_first_event)
  finally show ?thesis by simp
qed

section \<open>The dispatcher\<close>

text \<open>
  Claim C1, amended. For every combination of the probed flags the main conditional
  carries out exactly one strategy, never none and never two: the one that the fixed
  precedence ManagedRepo, AptGet, Dnf, PacmanAUR, AppImageFallback selects. The
  selection is a function of the four flags alone (the repository's source list exists,
  \<^verbatim>\<open>apt-get\<close>, \<^verbatim>\<open>dnf\<close> and \<^verbatim>\<open>pacman\<close> are present). In particular, when both
  \<^verbatim>\<open>apt-get\<close> and \<^verbatim>\<open>dnf\<close> are present and the repository is not configured, AptGet is
  selected.
\<close>

theorem dispatch_selects_exactly_one_strategy:
  "(\<exists>!st. dispatch h s = strategy_handler h st s)
   \<and> dispatch h s
       = strategy_handler h
           (select_strategy (is_file s sources_list_path) (has_cmd h ''apt-get'')
              (has_cmd h ''dnf'') (has_cmd h ''pacman'')) s
   \<and> (\<not> is_file s sources_list_path \<and> has_cmd h ''apt-get'' \<and> has_cmd h ''dnf'' \<longrightarrow>
        select_strategy (is_file s sources_list_path) (has_cmd h ''apt-get'')
              (has_cmd h ''dnf'') (has_cmd h ''pacman'') = AptGet
        \<and> dispatch h s = install_deb h s)"
proof -
  have sel: "dispatch h s
       = strategy_handler h
           (select_strategy (is_file s sources_list_path) (has_cmd h ''apt-get'')
              (has_cmd h ''dnf'') (has_cmd h ''pacman'')) s"
    by (simp add: dispatch_def select_strategy_def)
  then have "\<exists>!st. dispatch h s = strategy_handler h st s"
    by (metis strategy_handler_inj)
  moreover have "\<not> is_file s sources_list_path \<and> has_cmd h ''apt-get'' \<and> has_cmd h ''dnf'' \<longrightarrow>
        select_strategy (is_file s sources_list_path) (has_cmd h ''apt-get'')
              (has_cmd h ''dnf'') (has_cmd h ''pacman'') = AptGet
        \<and> dispatch h s = install_deb h s"
    by (simp add: dispatch_def select_strategy_def)
  ultimately show ?thesis using sel by blast
qed

text \<open>
  Without the condition on the repository the last sentence fails: on a machine with
  \<^verbatim>\<open>apt-get\<close> and \<^verbatim>\<open>dnf\<close> whose source list exists, the run goes through the managed
  repository and downloads nothing, where \<^verbatim>\<open>install_deb\<close> would have fetched the package.
\<close>

theorem dispatch_apt_and_dnf_counterexample:
  "has_cmd apt_dnf_host ''apt-get'' \<and> has_cmd apt_dnf_host ''dnf''
   \<and> dispatch apt_dnf_host repo_state = managed_repo_install apt_dnf_host repo_state
   \<and> dispatch apt_dnf_host repo_state \<noteq> install_deb apt_dnf_host repo_state
   \<and> net_calls (trace (state_of (dispatch apt_dnf_host repo_state))) = []
   \<and> net_calls (trace (state_of (install_deb apt_dnf_host repo_state))) = [deb_url repo_state]"
  by (simp add: apt_dnf_host_def plain_host_def repo_state_def v12_def initial_def dispatch_def
        is_file_def sources_list_path_def managed_repo_install_def install_deb_def
        verify_signature_def eval_defs msg_managed_def)

text \<open>
  The theorem at a machine with \<^verbatim>\<open>apt-get\<close> and \<^verbatim>\<open>dnf\<close> and no source list.
\<close>

theorem dispatch_selects_exactly_one_strategy_witness:
  "\<not> is_file v12 sources_list_path \<and> has_cmd apt_dnf_host ''apt-get'' \<and> has_cmd apt_dnf_host ''dnf''
   \<and> select_strategy (is_file v12 sources_list_path) (has_cmd apt_dnf_host ''apt-get'')
              (has_cmd apt_dnf_host ''dnf'') (has_cmd apt_dnf_host ''pacman'') = AptGet
   \<and> dispatch apt_dnf_host v12 = install_deb apt_dnf_host v12
   \<and> (\<exists>!st. dispatch apt_dnf_host v12 = strategy_handler apt_dnf_host st v12)"
proof -
  have flags: "\<not> is_file v12 sources_list_path \<and> has_cmd apt_dnf_host ''apt-get''
      \<and> has_cmd apt_dnf_host ''dnf''"
    by (simp add: apt_dnf_host_def plain_host_def v12_def initial_def is_file_def)
  with dispatch_selects_exactly_one_strategy [of apt_dnf_host v12] show ?thesis
    by blast
qed

section \<open>The AUR strategy\<close>

text \<open>
  Claim C7. \<^verbatim>\<open>install_pacman\<close> prefers \<^verbatim>\<open>yay\<close> to \<^verbatim>\<open>paru\<close>: with \<^verbatim>\<open>yay\<close> present it
  runs \<^verbatim>\<open>yay\<close> and nothing else, whether or not \<^verbatim>\<open>paru\<close> is there; with only \<^verbatim>\<open>paru\<close>
  it runs \<^verbatim>\<open>paru\<close>. With neither it prints its warning and the eight lines of
  instructions for a manual installation, and ends the process with status 1; what it did then differs from the AppImage
  strategy, which the main conditional does not reach once \<^verbatim>\<open>pacman\<close> was found.
\<close>

theorem install_pacman_prefers_yay_and_never_falls_through:
  "(has_cmd h ''yay'' \<longrightarrow>
      trace (state_of (install_pacman h s))
        = trace s @ [Info ''Installing from AUR via yay...'', Exec [''yay'', ''-S'', ''mcpmux-bin'']])
   \<and> (\<not> has_cmd h ''yay'' \<and> has_cmd h ''paru'' \<longrightarrow>
      trace (state_of (install_pacman h s))
        = trace s @ [Info ''Installing from AUR via paru...'', Exec [''paru'', ''-S'', ''mcpmux-bin'']])
   \<and> (\<not> has_cmd h ''yay'' \<and> \<not> has_cmd h ''paru'' \<longrightarrow>
        install_pacman h s
          = Exit 1 (s\<lparr>trace := trace s @
                      [Warn ''No AUR helper found (yay or paru).'',
                       Echo [],
                       Echo ''Option 1: Install an AUR helper first:'',
                       Echo ''  sudo pacman -S --needed git base-devel'',
                       Echo ''  git clone https://aur.archlinux.org/yay-bin.git && cd yay-bin && makepkg -si'',
                       Echo ''  yay -S mcpmux-bin'',
                       Echo [],
                       Echo ''Option 2: Download the AppImage:'',
                       Echo ''  https://github.com/mcpmux/mcp-mux/releases/latest'']\<rparr>)
        \<and> install_pacman h s \<noteq> install_appimage h s
        \<and> (\<not> is_file s ''/etc/apt/sources.list.d/mcpmux.list'' \<and> \<not> has_cmd h ''apt-get'' \<and> \<not> has_cmd h ''dnf''
             \<and> has_cmd h ''pacman'' \<longrightarrow> dispatch h s = install_pacman h s))"
proof (intro conjI impI)
  assume "has_cmd h ''yay''"
  then show "trace (state_of (install_pacman h s))
        = trace s @ [Info ''Installing from AUR via yay...'', Exec [''yay'', ''-S'', ''mcpmux-bin'']]"
    by (simp add: install_pacman_def sh_defs)
next
  assume "\<not> has_cmd h ''yay'' \<and> has_cmd h ''paru''"
  then show "trace (state_of (install_pacman h s))
        = trace s @ [Info ''Installing from AUR via paru...'', Exec [''paru'', ''-S'', ''mcpmux-bin'']]"
    by (simp add: install_pacman_def sh_defs)
next
  assume none: "\<not> has_cmd h ''yay'' \<and> \<not> has_cmd h ''paru''"
  then show "install_pacman h s
          = Exit 1 (s\<lparr>trace := trace s @
                      [Warn ''No AUR helper found (yay or paru).'',
                       Echo [],
                       Echo ''Option 1: Install an AUR helper first:'',
                       Echo ''  sudo pacman -S --needed git base-devel'',
                       Echo ''  git clone https://aur.archlinux.org/yay-bin.git && cd yay-bin && makepkg -si'',
                       Echo ''  yay -S mcpmux-bin'',
                       Echo [],
                       Echo ''Option 2: Download the AppImage:'',
                       Echo ''  https://github.com/mcpmux/mcp-mux/releases/latest'']\<rparr>)"
    by (simp add: install_pacman_def sh_defs aur_instructions_def GITHUB_REPO_def)
  have "first_new s (install_pacman h s) \<noteq> first_new s (install_appimage h s)"
    using none by (simp add: first_new_pacman first_new_appimage)
  then show "install_pacman h s \<noteq> install_appimage h s"
    by auto
next
  assume "\<not> is_file s ''/etc/apt/sources.list.d/mcpmux.list'' \<and> \<not> has_cmd h ''apt-get'' \<and> \<not> has_cmd h ''dnf''
             \<and> has_cmd h ''pacman''"
  then show "dispatch h s = install_pacman h s"
    by (simp add: dispatch_def sources_list_path_def)
qed

text \<open>
  The theorem at Arch Linux machines with both helpers, with \<^verbatim>\<open>paru\<close> alone and with
  neither; on the last a whole run ends with status 1, has written no file and has
  fetched the release metadata only.
\<close>

theorem install_pacman_prefers_yay_and_never_falls_through_witness:
  "has_cmd (arch_host\<lparr>has_cmd := (\<lambda>c. c = ''yay'' \<or> c = ''paru'')\<rparr>) ''yay''
   \<and> trace (state_of (install_pacman (arch_host\<lparr>has_cmd := (\<lambda>c. c = ''yay'' \<or> c = ''paru'')\<rparr>) v12))
       = [Info ''Installing from AUR via yay...'', Exec [''yay'', ''-S'', ''mcpmux-bin'']]
   \<and> \<not> has_cmd (arch_host\<lparr>has_cmd := (\<lambda>c. c = ''paru'')\<rparr>) ''yay''
   \<and> has_cmd (arch_host\<lparr>has_cmd := (\<lambda>c. c = ''paru'')\<rparr>) ''paru''
   \<and> trace (state_of (install_pacman (arch_host\<lparr>has_cmd := (\<lambda>c. c = ''paru'')\<rparr>) v12))
       = [Info ''Installing from AUR via paru...'', Exec [''paru'', ''-S'', ''mcpmux-bin'']]
   \<and> \<not> has_cmd arch_host ''yay'' \<and> \<not> has_cmd arch_host ''paru''
   \<and> \<not> is_file v12 ''/etc/apt/sources.list.d/mcpmux.list'' \<and> \<not> has_cmd arch_host ''apt-get''
   \<and> \<not> has_cmd arch_host ''dnf'' \<and> has_cmd arch_host ''pacman''
   \<and> dispatch arch_host v12
       = Exit 1 (v12\<lparr>trace :=
                      [Warn ''No AUR helper found (yay or paru).'',
                       Echo [],
                       Echo ''Option 1: Install an AUR helper first:'',
                       Echo ''  sudo pacman -S --needed git base-devel'',
                       Echo ''  git clone https://aur.archlinux.org/yay-bin.git && cd yay-bin && makepkg -si'',
                       Echo ''  yay -S mcpmux-bin'',
                       Echo [],
                       Echo ''Option 2: Download the AppImage:'',
                       Echo ''  https://github.com/mcpmux/mcp-mux/releases/latest'']\<rparr>)
   \<and> dispatch arch_host v12 \<noteq> install_appimage arch_host v12
   \<and> exit_code (install_main arch_host (initial Map.empty)) = Some 1
   \<and> fs (state_of (install_main arch_host (initial Map.empty))) = Map.empty
   \<and> net_calls (trace (state_of (install_main arch_host (initial Map.empty)))) = [latest_url]"
proof -
  have flags:
    "has_cmd (arch_host\<lparr>has_cmd := (\<lambda>c. c = ''yay'' \<or> c = ''paru'')\<rparr>) ''yay''"
    "\<not> has_cmd (arch_host\<lparr>has_cmd := (\<lambda>c. c = ''paru'')\<rparr>) ''yay''"
    "has_cmd (arch_host\<lparr>has_cmd := (\<lambda>c. c = ''paru'')\<rparr>) ''paru''"
    "\<not> has_cmd arch_host ''yay''" "\<not> has_cmd arch_host ''paru''"
    "\<not> is_file v12 ''/etc/apt/sources.list.d/mcpmux.list''" "\<not> has_cmd arch_host ''apt-get''"
    "\<not> has_cmd arch_host ''dnf''" "has_cmd arch_host ''pacman''"
    by (simp_all add: arch_host_def v12_def initial_def is_file_def)
  have run: "exit_code (install_main arch_host (initial Map.empty)) = Some 1
     \<and> fs (state_of (install_main arch_host (initial Map.empty))) = Map.empty
     \<and> net_calls (trace (state_of (install_main arch_host (initial Map.empty)))) = [latest_url]"
    by (simp add: initial_def install_main_def arch_host_def release_host_def failing_gpg_host_def
        plain_host_def need_def detect_arch_def resolve_version_def latest_tag_def text_body_def latest_url_def
        sed_strip_v_def has_tag_name_def dispatch_def is_file_def install_pacman_def
        aur_instructions_def eval_defs)
  have t0: "trace v12 = []"
    by (simp add: v12_def initial_def)
  have yay: "trace (state_of (install_pacman (arch_host\<lparr>has_cmd := (\<lambda>c. c = ''yay'' \<or> c = ''paru'')\<rparr>) v12))
       = [Info ''Installing from AUR via yay...'', Exec [''yay'', ''-S'', ''mcpmux-bin'']]"
    using install_pacman_prefers_yay_and_never_falls_through
      [of "arch_host\<lparr>has_cmd := (\<lambda>c. c = ''yay'' \<or> c = ''paru'')\<rparr>" v12] flags(1) t0
    by simp
  have paru: "trace (state_of (install_pacman (arch_host\<lparr>has_cmd := (\<lambda>c. c = ''paru'')\<rparr>) v12))
       = [Info ''Installing from AUR via paru...'', Exec [''paru'', ''-S'', ''mcpmux-bin'']]"
    using install_pacman_prefers_yay_and_never_falls_through
      [of "arch_host\<lparr>has_cmd := (\<lambda>c. c = ''paru'')\<rparr>" v12] flags(2,3) t0
    by simp
  from install_pacman_prefers_yay_and_never_falls_through [of arch_host v12] flags(4-9)
  have none: "install_pacman arch_host v12
          = Exit 1 (v12\<lparr>trace := trace v12 @
                      [Warn ''No AUR helper found (yay or paru).'',
                       Echo [],
                       Echo ''Option 1: Install an AUR helper first:'',
                       Echo ''  sudo pacman -S --needed git base-devel'',
                       Echo ''  git clone https://aur.archlinux.org/yay-bin.git && cd yay-bin && makepkg -si'',
                       Echo ''  yay -S mcpmux-bin'',
                       Echo [],
                       Echo ''Option 2: Download the AppImage:'',
                       Echo ''  https://github.com/mcpmux/mcp-mux/releases/latest'']\<rparr>)"
    "install_pacman arch_host v12 \<noteq> install_appimage arch_host v12"
    "dispatch arch_host v12 = install_pacman arch_host v12"
    by blast+
  have d1: "dispatch arch_host v12
       = Exit 1 (v12\<lparr>trace :=
                      [Warn ''No AUR helper found (yay or paru).'',
                       Echo [],
                       Echo ''Option 1: Install an AUR helper first:'',
                       Echo ''  sudo pacman -S --needed git base-devel'',
                       Echo ''  git clone https://aur.archlinux.org/yay-bin.git && cd yay-bin && makepkg -si'',
                       Echo ''  yay -S mcpmux-bin'',
                       Echo [],
                       Echo ''Option 2: Download the AppImage:'',
                       Echo ''  https://github.com/mcpmux/mcp-mux/releases/latest'']\<rparr>)"
    using none(1,3) t0 by simp
  have d2: "dispatch arch_host v12 \<noteq> install_appimage arch_host v12"
    using none(2,3) by simp
  from flags run yay paru d1 d2 show ?thesis
    by blast
qed

section \<open>The architecture\<close>

lemma parse_args_no_net:
  "net_calls (trace (state_of (parse_args as s))) = net_calls (trace s)"
  by (induction as s rule: parse_args.induct)
     (simp_all add: fail_def emit_def net_calls_append split: list.splits)

text \<open>
  Claim C3. The architecture step maps \<^verbatim>\<open>x86_64\<close> to \<^verbatim>\<open>amd64\<close> and \<^verbatim>\<open>aarch64\<close> to
  \<^verbatim>\<open>arm64\<close>. For any other identifier it ends the process with status 1 and the message
  \<^verbatim>\<open>Unsupported architecture\<close>; a run on such a machine ends without any request to the
  network, and whenever it gets as far as probing the architecture (the arguments were
  accepted and \<^verbatim>\<open>curl\<close> is installed) it ends there, with status 1.
\<close>

theorem unsupported_architecture_is_fatal:
  "(uname_m h = ''x86_64'' \<longrightarrow> detect_arch h s = Next (s\<lparr>ARCH := ''amd64''\<rparr>))
   \<and> (uname_m h = ''aarch64'' \<longrightarrow> detect_arch h s = Next (s\<lparr>ARCH := ''arm64''\<rparr>))
   \<and> (uname_m h \<noteq> ''x86_64'' \<and> uname_m h \<noteq> ''aarch64'' \<longrightarrow>
        detect_arch h s
          = Exit 1 (emit (Error (''Unsupported architecture: '' @ uname_m h)) (s\<lparr>ARCH := uname_m h\<rparr>))
        \<and> (\<exists>n s'. install_main h (initial f) = Exit n s' \<and> net_calls (trace s') = [])
        \<and> (\<forall>s1. parse_args (args h) (initial f) = Next s1 \<and> has_cmd h ''curl'' \<longrightarrow>
              install_main h (initial f)
                = Exit 1 (emit (Error (''Unsupported architecture: '' @ uname_m h))
                            (s1\<lparr>ARCH := uname_m h\<rparr>))))"
proof (intro conjI impI allI)
  assume "uname_m h = ''x86_64''"
  then show "detect_arch h s = Next (s\<lparr>ARCH := ''amd64''\<rparr>)"
    by (simp add: detect_arch_def)
next
  assume "uname_m h = ''aarch64''"
  then show "detect_arch h s = Next (s\<lparr>ARCH := ''arm64''\<rparr>)"
    by (simp add: detect_arch_def)
next
  assume other: "uname_m h \<noteq> ''x86_64'' \<and> uname_m h \<noteq> ''aarch64''"
  then show d: "detect_arch h s
          = Exit 1 (emit (Error (''Unsupported architecture: '' @ uname_m h)) (s\<lparr>ARCH := uname_m h\<rparr>))"
    by (simp add: detect_arch_def fail_def Let_def)
  have p: "net_calls (trace (state_of (parse_args (args h) (initial f)))) = []"
    by (simp add: parse_args_no_net initial_def)
  show "\<exists>n s'. install_main h (initial f) = Exit n s' \<and> net_calls (trace s') = []"
  proof (cases "parse_args (args h) (initial f)")
    case (Exit n s')
    with p show ?thesis by (simp add: install_main_def)
  next
    case (Next s1)
    with p other show ?thesis
      by (simp add: install_main_def need_def skip_def fail_def detect_arch_def emit_def
            net_calls_append Let_def)
  qed
next
  fix s1
  assume other: "uname_m h \<noteq> ''x86_64'' \<and> uname_m h \<noteq> ''aarch64''"
    and "parse_args (args h) (initial f) = Next s1 \<and> has_cmd h ''curl''"
  then show "install_main h (initial f)
                = Exit 1 (emit (Error (''Unsupported architecture: '' @ uname_m h))
                            (s1\<lparr>ARCH := uname_m h\<rparr>))"
    by (simp add: install_main_def need_def skip_def fail_def detect_arch_def Let_def)
qed

text \<open>
  The theorem at a riscv64 machine, an x86_64 machine and an aarch64 machine.
\<close>

theorem unsupported_architecture_is_fatal_witness:
  "uname_m riscv_host \<noteq> ''x86_64'' \<and> uname_m riscv_host \<noteq> ''aarch64''
   \<and> parse_args (args riscv_host) (initial Map.empty) = Next (initial Map.empty)
   \<and> has_cmd riscv_host ''curl''
   \<and> install_main riscv_host (initial Map.empty)
       = Exit 1 ((initial Map.empty)\<lparr>ARCH := ''riscv64'',
                                       trace := [Error ''Unsupported architecture: riscv64'']\<rparr>)
   \<and> uname_m release_host = ''x86_64''
   \<and> detect_arch release_host (initial Map.empty) = Next ((initial Map.empty)\<lparr>ARCH := ''amd64''\<rparr>)
   \<and> uname_m (release_host\<lparr>uname_m := ''aarch64''\<rparr>) = ''aarch64''
   \<and> detect_arch (release_host\<lparr>uname_m := ''aarch64''\<rparr>) (initial Map.empty)
       = Next ((initial Map.empty)\<lparr>ARCH := ''arm64''\<rparr>)"
proof -
  have hyps: "uname_m riscv_host \<noteq> ''x86_64'' \<and> uname_m riscv_host \<noteq> ''aarch64''"
    "parse_args (args riscv_host) (initial Map.empty) = Next (initial Map.empty)"
    "has_cmd riscv_host ''curl''"
    "uname_m release_host = ''x86_64''"
    "uname_m (release_host\<lparr>uname_m := ''aarch64''\<rparr>) = ''aarch64''"
    by (simp_all add: riscv_host_def release_host_def failing_gpg_host_def plain_host_def)
  from hyps
    unsupported_architecture_is_fatal [of riscv_host "initial Map.empty" Map.empty]
    unsupported_architecture_is_fatal [of release_host "initial Map.empty" Map.empty]
    unsupported_architecture_is_fatal [of "release_host\<lparr>uname_m := ''aarch64''\<rparr>" "initial Map.empty" Map.empty]
  show ?thesis
    by (simp add: emit_def initial_def riscv_host_def)
qed

section \<open>The version\<close>










section \<open>The AppImage strategy and the search path\<close>

lemma install_appimage_trace:
  assumes "fst (curl h (appimage_url s)) = 0"
  shows "\<exists>s' mid. install_appimage h s = Next s'
     \<and> Warn msg_path_warning \<notin> set mid
     \<and> map_option executable (fs s' (install_path h)) = Some True
     \<and> trace s' = trace s @ mid
          @ (if list_ex (grep_x h (install_dir h)) (path_lines h)
                \<and> (length (PATH h) < 4096 \<or> early_quit_rc h = 0) then []
             else [Echo [], Warn msg_path_warning,
                   Echo ''  echo 'export PATH=\"$HOME/.local/bin:$PATH\"' >> ~/.bashrc'',
                   Echo ''  source ~/.bashrc''])"
proof -
  define s1 where "s1 = write_file (install_path h) (snd (curl h (appimage_url s)))
     (emit (Curl (appimage_url s)) (emit (Info ''Downloading AppImage...'')
        (emit (Exec [''mkdir'', ''-p'', install_dir h]) (emit (Info msg_appimage) s))))"
  obtain s2 where r: "verify_signature h (install_path h) s1 = Next s2"
    and f: "fs s2 (install_path h) = fs s1 (install_path h)"
    and t: "\<exists>new. trace s2 = trace s1 @ new \<and> (\<exists>v. reported_outcomes new = [v])"
    and w: "Warn msg_path_warning \<notin> set (drop (length (trace s1)) (trace s2))"
    by (rule verify_signature_Next)
  from t obtain new where new: "trace s2 = trace s1 @ new"
    by blast
  with w have w': "Warn msg_path_warning \<notin> set new"
    by simp
  have t1: "trace s1 = trace s @ [Info msg_appimage, Exec [''mkdir'', ''-p'', install_dir h],
      Info ''Downloading AppImage...'', Curl (appimage_url s)]"
    by (simp add: s1_def sh_defs)
  let ?mid = "[Info msg_appimage, Exec [''mkdir'', ''-p'', install_dir h],
      Info ''Downloading AppImage...'', Curl (appimage_url s)] @ new
      @ [Okay (''Installed to '' @ install_path h)]"
  have "Warn msg_path_warning \<notin> set ?mid"
    using w' by simp
  moreover have "\<exists>s'. install_appimage h s = Next s'
     \<and> map_option executable (fs s' (install_path h)) = Some True
     \<and> trace s' = trace s @ ?mid
          @ (if list_ex (grep_x h (install_dir h)) (path_lines h)
                \<and> (length (PATH h) < 4096 \<or> early_quit_rc h = 0) then []
             else [Echo [], Warn msg_path_warning,
                   Echo ''  echo 'export PATH=\"$HOME/.local/bin:$PATH\"' >> ~/.bashrc'',
                   Echo ''  source ~/.bashrc''])"
    using assms r f new t1
    by (cases "curl h (appimage_url s)")
       (simp add: install_appimage_def sh_defs s1_def grep_qx_path_def)
  ultimately show ?thesis by blast
qed

lemma path_warning_iff_no_line_matches:
  assumes "fst (curl h (appimage_url s)) = 0" and "length (PATH h) < 4096"
  shows "Warn msg_path_warning \<in> set (drop (length (trace s)) (trace (state_of (install_appimage h s))))
     \<longleftrightarrow> \<not> list_ex (grep_x h (install_dir h)) (path_lines h)"
  using install_appimage_trace[OF assms(1)] assms(2) by auto

text \<open>
  Claim C8 says that after a successful run of the AppImage strategy the installed file is
  executable, and that the warning about the search path is printed if and only if the
  install directory is absent, as a string, from the colon-separated listing. The first
  part holds (\<open>install_appimage_trace\<close>). The second does not: the script tests the
  listing with \<^verbatim>\<open>grep -qx "$install_dir"\<close>, which reads the directory as a regular
  expression, so the warning is printed if and only if no entry matches that expression
  (\<open>path_warning_iff_no_line_matches\<close>, for a listing of fewer than 4096 bytes). With \<^verbatim>\<open>HOME=/home/u\<close> and
  \<^verbatim>\<open>PATH=/home/u/xlocal/bin:/usr/bin\<close> the install directory \<^verbatim>\<open>/home/u/.local/bin\<close> is not
  in the listing, the run succeeds and marks the file executable, and no warning is
  printed, because the dot of \<^verbatim>\<open>.local\<close> matches the \<^verbatim>\<open>x\<close> of \<^verbatim>\<open>xlocal\<close>. The script's
  own comment (\<^verbatim>\<open>Check if ~/.local/bin is in PATH\<close>) asks for what the claim says.
\<close>

theorem path_warning_missing_for_lookalike_directory:
  "path_lines lookalike_path_host = [''/home/u/xlocal/bin'', ''/usr/bin'']
   \<and> install_dir lookalike_path_host = ''/home/u/.local/bin''
   \<and> install_dir lookalike_path_host \<notin> set (path_lines lookalike_path_host)
   \<and> dispatch lookalike_path_host v12 = install_appimage lookalike_path_host v12
   \<and> exit_code (install_appimage lookalike_path_host v12) = None
   \<and> Warn msg_path_warning \<notin> set (trace (state_of (install_appimage lookalike_path_host v12)))
   \<and> map_option executable
        (fs (state_of (install_appimage lookalike_path_host v12)) (install_path lookalike_path_host))
       = Some True"
  by (simp add: lookalike_path_host_def release_host_def failing_gpg_host_def plain_host_def
        v12_def initial_def dispatch_def is_file_def install_appimage_def verify_signature_def
        path_lines_def echo_out_def echo_option_def tr_colon_newline_def grep_qx_path_def
        grep_x_def bre_plain_def ascii_def
        install_dir_def install_path_def msg_appimage_def eval_defs)

section \<open>The front-end serves one script\<close>

text \<open>
  Claim C10, amended. The install script that the front-end serves is a constant. A GET
  of \<^verbatim>\<open>/\<close> in raw mode, that is from a client whose \<^verbatim>\<open>User-Agent\<close> names no browser, or
  from any client with the \<^verbatim>\<open>raw\<close> query parameter set to a non-empty value, and a GET
  of \<^verbatim>\<open>/install.sh\<close> return the same response: the install script, with the content type
  \<^verbatim>\<open>text/plain; charset=utf-8\<close>. A request without \<^verbatim>\<open>User-Agent\<close> header counts as one
  from a client that is no browser and gets the script, never the landing page.
\<close>

theorem raw_root_serves_the_install_script:
  "(path r1 = ''/'' \<and> path r2 = ''/install.sh''
      \<and> (\<not> isBrowser (case user_agent r1 of None \<Rightarrow> [] | Some u \<Rightarrow> u)
           \<or> (\<exists>v. query_raw r1 = Some v \<and> v \<noteq> []))
     \<longrightarrow> app r1 = app r2 \<and> app r1 = NewResponse installScript script_headers)
   \<and> map_of script_headers ''Content-Type'' = Some ''text/plain; charset=utf-8''
   \<and> (path r = ''/'' \<and> user_agent r = None
        \<longrightarrow> app r = NewResponse installScript script_headers \<and> app r \<noteq> Html landingPage)"
  by (auto simp: app_def get_root_def get_install_sh_def falsy_def script_headers_def
        isBrowser_def Let_def)

text \<open>
  The claim as it was stated takes every request with the \<^verbatim>\<open>raw\<close> parameter set to be in
  raw mode. The handler tests the parameter for truth, and the empty string is not
  true: a browser that asks for \<^verbatim>\<open>/?raw=\<close> gets the landing page, not what
  \<^verbatim>\<open>/install.sh\<close> returns.
\<close>

theorem empty_raw_parameter_counterexample:
  "query_raw browser_request = Some []
   \<and> app browser_request = Html landingPage
   \<and> app (browser_request\<lparr>path := ''/install.sh''\<rparr>) = NewResponse installScript script_headers
   \<and> app browser_request \<noteq> app (browser_request\<lparr>path := ''/install.sh''\<rparr>)"
  by (simp add: browser_request_def app_def get_root_def get_install_sh_def falsy_def
        isBrowser_def)

text \<open>
  The theorem for a browser asking for \<^verbatim>\<open>/?raw=1\<close>, for \<^verbatim>\<open>curl\<close>, and for a request
  without \<^verbatim>\<open>User-Agent\<close>.
\<close>

theorem raw_root_serves_the_install_script_witness:
  "app (browser_request\<lparr>query_raw := Some ''1''\<rparr>) = app (browser_request\<lparr>path := ''/install.sh''\<rparr>)
   \<and> app (browser_request\<lparr>query_raw := Some ''1''\<rparr>) = NewResponse installScript script_headers
   \<and> app (browser_request\<lparr>user_agent := Some ''curl/8.5.0''\<rparr>)
       = app (browser_request\<lparr>path := ''/install.sh''\<rparr>)
   \<and> app (browser_request\<lparr>user_agent := None\<rparr>) = NewResponse installScript script_headers
   \<and> app (browser_request\<lparr>user_agent := None\<rparr>) \<noteq> Html landingPage"
proof -
  have a: "path (browser_request\<lparr>query_raw := Some ''1''\<rparr>) = ''/''
      \<and> path (browser_request\<lparr>path := ''/install.sh''\<rparr>) = ''/install.sh''
      \<and> (\<not> isBrowser (case user_agent (browser_request\<lparr>query_raw := Some ''1''\<rparr>) of
                          None \<Rightarrow> [] | Some u \<Rightarrow> u)
           \<or> (\<exists>v. query_raw (browser_request\<lparr>query_raw := Some ''1''\<rparr>) = Some v \<and> v \<noteq> []))"
    by (simp add: browser_request_def)
  have b: "path (browser_request\<lparr>user_agent := Some ''curl/8.5.0''\<rparr>) = ''/''
      \<and> path (browser_request\<lparr>path := ''/install.sh''\<rparr>) = ''/install.sh''
      \<and> (\<not> isBrowser (case user_agent (browser_request\<lparr>user_agent := Some ''curl/8.5.0''\<rparr>) of
                          None \<Rightarrow> [] | Some u \<Rightarrow> u)
           \<or> (\<exists>v. query_raw (browser_request\<lparr>user_agent := Some ''curl/8.5.0''\<rparr>) = Some v
                 \<and> v \<noteq> []))"
    by (simp add: browser_request_def isBrowser_def)
  have c: "path (browser_request\<lparr>user_agent := None\<rparr>) = ''/''
      \<and> user_agent (browser_request\<lparr>user_agent := None\<rparr>) = None"
    by (simp add: browser_request_def)
  from a b c
    raw_root_serves_the_install_script
      [of "browser_request\<lparr>query_raw := Some ''1''\<rparr>" "browser_request\<lparr>path := ''/install.sh''\<rparr>"
          "browser_request\<lparr>user_agent := None\<rparr>"]
    raw_root_serves_the_install_script
      [of "browser_request\<lparr>user_agent := Some ''curl/8.5.0''\<rparr>"
          "browser_request\<lparr>path := ''/install.sh''\<rparr>" "browser_request\<lparr>user_agent := None\<rparr>"]
  show ?thesis
    by blast
qed

section \<open>Running the repository set-up again\<close>







end
